theory Spec2Isabelle
  imports Main "HOL-Library.Char_ord" "HOL-Library.List_Lexorder" "HOL-Library.Code_Target_Nat"
begin

section \<open>JavaScript strings and numbers\<close>

text \<open>
  A JavaScript string is modelled by the list of its code units, for code units below 256,
  so that \<open>string\<close> (a \<open>char list\<close>) carries it. The order on strings is the
  lexicographic order on code units (JavaScript's \<open><\<close> on strings), a proper prefix
  being smaller. Absent values (\<open>null\<close>, \<open>undefined\<close>) are \<open>None\<close>; a thrown
  exception is \<open>Inl\<close> of its message.
\<close>

type_synonym error = string

definition isDigit :: "char \<Rightarrow> bool" where
  \<comment> \<open>the regular-expression class \<open>\<bsol>d\<close>, that is \<open>[0-9]\<close>\<close>
  "isDigit c \<longleftrightarrow> c \<in> set ''0123456789''"

definition isLetter :: "char \<Rightarrow> bool" where
  \<comment> \<open>\<open>[a-zA-Z]\<close>\<close>
  "isLetter c \<longleftrightarrow> c \<in> set ''abcdefghijklmnopqrstuvwxyzABCDEFGHIJKLMNOPQRSTUVWXYZ''"

definition isSpace :: "char \<Rightarrow> bool" where
  \<comment> \<open>\<open>\<bsol>s\<close> and the characters \<open>trim\<close> strips, below 256:
      TAB, LF, VT, FF, CR, SPACE, NBSP\<close>
  "isSpace c \<longleftrightarrow> c \<in> set [CHR 0x09, CHR 0x0A, CHR 0x0B, CHR 0x0C, CHR 0x0D, CHR 0x20, CHR 0xA0]"

definition trim :: "string \<Rightarrow> string" where
  "trim s = rev (dropWhile isSpace (rev (dropWhile isSpace s)))"

definition digitVal :: "char \<Rightarrow> nat" where
  "digitVal c = of_char c - 48"

definition digitChar :: "nat \<Rightarrow> char" where
  "digitChar d = char_of (48 + d)"

definition toNumber :: "string \<Rightarrow> nat" where
  \<comment> \<open>unary \<open>+\<close> on a string of decimal digits\<close>
  "toNumber s = foldl (\<lambda>n c. 10 * n + digitVal c) 0 s"

fun showNat :: "nat \<Rightarrow> string" where
  \<comment> \<open>\<open>String(n)\<close> for a non-negative integer below \<open>10^21\<close>\<close>
  "showNat n = (if n < 10 then [digitChar n] else showNat (n div 10) @ [digitChar (n mod 10)])"

declare showNat.simps [simp del]

fun splitOn :: "char \<Rightarrow> string \<Rightarrow> string list" where
  \<comment> \<open>\<open>s.split(c)\<close>: the pieces between the occurrences of \<open>c\<close>, empty pieces kept\<close>
  "splitOn c [] = [[]]"
| "splitOn c (x # xs) =
     (if x = c then [] # splitOn c xs
      else (case splitOn c xs of [] \<Rightarrow> [[x]] | p # ps \<Rightarrow> (x # p) # ps))"

fun joinWith :: "string \<Rightarrow> string list \<Rightarrow> string" where
  \<comment> \<open>\<open>xs.join(sep)\<close>\<close>
  "joinWith sep [] = []"
| "joinWith sep [x] = x"
| "joinWith sep (x # y # ys) = x @ sep @ joinWith sep (y # ys)"

definition startsWith :: "string \<Rightarrow> string \<Rightarrow> bool" where
  \<comment> \<open>\<open>s.startsWith(p)\<close>\<close>
  "startsWith s p \<longleftrightarrow> take (length p) s = p"

fun includesStr :: "string \<Rightarrow> string \<Rightarrow> bool" where
  \<comment> \<open>\<open>s.includes(p)\<close>: \<open>p\<close> occurs in \<open>s\<close> as a substring\<close>
  "includesStr [] p = (p = [])"
| "includesStr (c # cs) p = (startsWith (c # cs) p \<or> includesStr cs p)"

subsection \<open>Array.prototype.sort\<close>

text \<open>
  \<open>Array.prototype.sort\<close> is stable, and for a consistent comparator every stable sort
  returns the same array; it is modelled by stable insertion. A comparator result below
  zero puts the first argument first. A comparator that throws makes the sort throw.
\<close>

fun insertBy :: "('a \<Rightarrow> 'a \<Rightarrow> error + int) \<Rightarrow> 'a \<Rightarrow> 'a list \<Rightarrow> error + 'a list" where
  "insertBy cmp x [] = Inr [x]"
| "insertBy cmp x (y # ys) =
     (case cmp x y of
        Inl e \<Rightarrow> Inl e
      | Inr r \<Rightarrow>
          if r \<le> 0 then Inr (x # y # ys)
          else (case insertBy cmp x ys of Inl e \<Rightarrow> Inl e | Inr zs \<Rightarrow> Inr (y # zs)))"

fun sortBy :: "('a \<Rightarrow> 'a \<Rightarrow> error + int) \<Rightarrow> 'a list \<Rightarrow> error + 'a list" where
  "sortBy cmp [] = Inr []"
| "sortBy cmp (x # xs) =
     (case sortBy cmp xs of Inl e \<Rightarrow> Inl e | Inr ys \<Rightarrow> insertBy cmp x ys)"

definition defaultCompare :: "string \<Rightarrow> string \<Rightarrow> error + int" where
  \<comment> \<open>the comparator of \<open>sort()\<close> without argument: code-unit order on strings\<close>
  "defaultCompare a b = Inr (if a < b then - 1 else if b < a then 1 else 0)"

section \<open>The semver package (version 7), strict mode\<close>

text \<open>
  The program calls \<open>semver.valid\<close>, \<open>semver.coerce\<close>, \<open>semver.gt\<close> and
  \<open>semver.rcompare\<close> of the semver package, which is a dependency and not part of the
  repository. They are modelled from the package's sources: the regular expressions
  \<open>FULL\<close> and \<open>COERCE\<close>, the class \<open>SemVer\<close> and \<open>compareIdentifiers\<close>.
  Numeric identifiers are compared as natural numbers; JavaScript compares them as
  doubles, which is the same below \<open>2^53\<close>.
\<close>

definition MAX_LENGTH :: nat where
  "MAX_LENGTH = 256"

definition MAX_SAFE_INTEGER :: nat where
  "MAX_SAFE_INTEGER = 9007199254740991"

definition MAX_SAFE_COMPONENT_LENGTH :: nat where
  "MAX_SAFE_COMPONENT_LENGTH = 16"

datatype preId = NumId nat | StrId string

record SemVer =
  major :: nat
  minor :: nat
  patch :: nat
  prerelease :: "preId list"
  build :: "string list"

definition numericIdentifier :: "string \<Rightarrow> bool" where
  \<comment> \<open>\<open>0|[1-9]\<bsol>d*\<close>\<close>
  "numericIdentifier s \<longleftrightarrow>
     s = ''0'' \<or> (s \<noteq> [] \<and> list_all isDigit s \<and> hd s \<noteq> CHR ''0'')"

definition letterDashNumber :: "char \<Rightarrow> bool" where
  \<comment> \<open>\<open>[a-zA-Z0-9-]\<close>\<close>
  "letterDashNumber c \<longleftrightarrow> isLetter c \<or> isDigit c \<or> c = CHR ''-''"

definition prereleaseIdentifier :: "string \<Rightarrow> bool" where
  \<comment> \<open>\<open>\<bsol>d*[a-zA-Z-][a-zA-Z0-9-]*|0|[1-9]\<bsol>d*\<close>, matched against a whole piece\<close>
  "prereleaseIdentifier s \<longleftrightarrow>
     (s \<noteq> [] \<and> list_all letterDashNumber s \<and> \<not> list_all isDigit s) \<or> numericIdentifier s"

definition buildIdentifier :: "string \<Rightarrow> bool" where
  \<comment> \<open>\<open>[a-zA-Z0-9-]+\<close>\<close>
  "buildIdentifier s \<longleftrightarrow> s \<noteq> [] \<and> list_all letterDashNumber s"

definition toIdentifier :: "string \<Rightarrow> preId" where
  \<comment> \<open>a prerelease piece of digits only counts as a number\<close>
  "toIdentifier s = (if list_all isDigit s then NumId (toNumber s) else StrId s)"

definition showIdentifier :: "preId \<Rightarrow> string" where
  "showIdentifier i = (case i of NumId n \<Rightarrow> showNat n | StrId s \<Rightarrow> s)"

definition format :: "SemVer \<Rightarrow> string" where
  \<comment> \<open>\<open>SemVer.format\<close>, the field \<open>version\<close>: the build metadata is left out\<close>
  "format v =
     showNat (major v) @ ''.'' @ showNat (minor v) @ ''.'' @ showNat (patch v) @
     (if prerelease v \<noteq> [] then ''-'' @ joinWith ''.'' (map showIdentifier (prerelease v))
      else [])"

definition parsePrerelease :: "string \<Rightarrow> preId list option" where
  \<comment> \<open>\<open>(?:-(ID(?:\<bsol>.ID)*))?\<close> against the text before the first \<open>+\<close>\<close>
  "parsePrerelease preTxt =
     (case preTxt of
        [] \<Rightarrow> Some []
      | c # ids \<Rightarrow>
          if c = CHR ''-'' \<and> list_all prereleaseIdentifier (splitOn CHR ''.'' ids)
          then Some (map toIdentifier (splitOn CHR ''.'' ids)) else None)"

definition parseBuild :: "string \<Rightarrow> string list option" where
  \<comment> \<open>\<open>(?:\<bsol>+(ID(?:\<bsol>.ID)*))?\<close> against the text from the first \<open>+\<close> on\<close>
  "parseBuild rest =
     (case rest of
        [] \<Rightarrow> Some []
      | c # ids \<Rightarrow>
          if list_all buildIdentifier (splitOn CHR ''.'' ids)
          then Some (splitOn CHR ''.'' ids) else None)"

definition parseTail :: "string \<Rightarrow> (preId list \<times> string list) option" where
  \<comment> \<open>what follows the main version: \<open>(-prerelease)?(+build)?$\<close>\<close>
  "parseTail r =
     (case parsePrerelease (takeWhile (\<lambda>c. c \<noteq> CHR ''+'') r) of
        None \<Rightarrow> None
      | Some p \<Rightarrow>
          (case parseBuild (dropWhile (\<lambda>c. c \<noteq> CHR ''+'') r) of
             None \<Rightarrow> None
           | Some b \<Rightarrow> Some (p, b)))"

definition stripV :: "string \<Rightarrow> string" where
  \<comment> \<open>the optional \<open>v\<close> at the head of \<open>FULL\<close>\<close>
  "stripV s = (case s of [] \<Rightarrow> [] | c # cs \<Rightarrow> if c = CHR ''v'' then cs else c # cs)"

definition parse :: "string \<Rightarrow> SemVer option" where
  \<comment> \<open>\<open>semver.parse\<close>: \<open>new SemVer(version)\<close>, with \<open>null\<close> for a thrown TypeError.
      The three numbers are maximal runs of digits, each followed by a dot but the last.\<close>
  "parse version =
     (if length version > MAX_LENGTH then None
      else
        let s1 = stripV (trim version);
            a = takeWhile isDigit s1; r1 = dropWhile isDigit s1;
            b = takeWhile isDigit (tl r1); r2 = dropWhile isDigit (tl r1);
            c = takeWhile isDigit (tl r2); r3 = dropWhile isDigit (tl r2)
        in if startsWith r1 ''.'' \<and> startsWith r2 ''.'' \<and>
              numericIdentifier a \<and> numericIdentifier b \<and> numericIdentifier c
           then (case parseTail r3 of
                   None \<Rightarrow> None
                 | Some (p, bl) \<Rightarrow>
                     if toNumber a > MAX_SAFE_INTEGER \<or> toNumber b > MAX_SAFE_INTEGER \<or>
                        toNumber c > MAX_SAFE_INTEGER
                     then None
                     else Some \<lparr>major = toNumber a, minor = toNumber b, patch = toNumber c,
                                prerelease = p, build = bl\<rparr>)
           else None)"

definition valid :: "string \<Rightarrow> string option" where
  \<comment> \<open>\<open>semver.valid\<close>\<close>
  "valid version = (case parse version of None \<Rightarrow> None | Some v \<Rightarrow> Some (format v))"

definition compareIdentifiers :: "preId \<Rightarrow> preId \<Rightarrow> int" where
  "compareIdentifiers a b =
     (case (a, b) of
        (NumId x, NumId y) \<Rightarrow> if x = y then 0 else if x < y then - 1 else 1
      | (NumId x, StrId y) \<Rightarrow> - 1
      | (StrId x, NumId y) \<Rightarrow> 1
      | (StrId x, StrId y) \<Rightarrow> if x = y then 0 else if x < y then - 1 else 1)"

definition compareMain :: "SemVer \<Rightarrow> SemVer \<Rightarrow> int" where
  "compareMain a b =
     (let c1 = compareIdentifiers (NumId (major a)) (NumId (major b)) in
      if c1 \<noteq> 0 then c1
      else let c2 = compareIdentifiers (NumId (minor a)) (NumId (minor b)) in
        if c2 \<noteq> 0 then c2
        else compareIdentifiers (NumId (patch a)) (NumId (patch b)))"

fun comparePreLoop :: "preId list \<Rightarrow> preId list \<Rightarrow> int" where
  "comparePreLoop [] [] = 0"
| "comparePreLoop (a # as) [] = 1"
| "comparePreLoop [] (b # bs) = - 1"
| "comparePreLoop (a # as) (b # bs) =
     (if a = b then comparePreLoop as bs else compareIdentifiers a b)"

definition comparePre :: "SemVer \<Rightarrow> SemVer \<Rightarrow> int" where
  \<comment> \<open>not having a prerelease is greater than having one\<close>
  "comparePre a b =
     (if prerelease a \<noteq> [] \<and> prerelease b = [] then - 1
      else if prerelease a = [] \<and> prerelease b \<noteq> [] then 1
      else if prerelease a = [] \<and> prerelease b = [] then 0
      else comparePreLoop (prerelease a) (prerelease b))"

definition compareSemVer :: "SemVer \<Rightarrow> SemVer \<Rightarrow> int" where
  \<comment> \<open>\<open>SemVer.compare\<close>\<close>
  "compareSemVer a b =
     (if format b = format a then 0
      else let m = compareMain a b in if m \<noteq> 0 then m else comparePre a b)"

definition compare :: "string \<Rightarrow> string \<Rightarrow> error + int" where
  \<comment> \<open>\<open>semver.compare\<close>: \<open>new SemVer(a).compare(new SemVer(b))\<close>, a TypeError for an
      invalid version\<close>
  "compare a b =
     (case parse a of
        None \<Rightarrow> Inl (''Invalid Version: '' @ a)
      | Some va \<Rightarrow>
          (case parse b of
             None \<Rightarrow> Inl (''Invalid Version: '' @ b)
           | Some vb \<Rightarrow> Inr (compareSemVer va vb)))"

definition gt :: "string \<Rightarrow> string \<Rightarrow> error + bool" where
  \<comment> \<open>\<open>semver.gt\<close>\<close>
  "gt a b = (case compare a b of Inl e \<Rightarrow> Inl e | Inr r \<Rightarrow> Inr (r > 0))"

definition rcompare :: "string \<Rightarrow> string \<Rightarrow> error + int" where
  \<comment> \<open>\<open>semver.rcompare\<close>\<close>
  "rcompare a b = compare b a"

function coerceFind :: "string \<Rightarrow> (string \<times> string) option" where
  \<comment> \<open>the leftmost match of \<open>(^|[^\<bsol>d])(\<bsol>d{1,16})\<close> that can be completed: the
      first maximal run of digits of at most 16 digits, and the text after it\<close>
  "coerceFind s =
     (case dropWhile (\<lambda>c. \<not> isDigit c) s of
        [] \<Rightarrow> None
      | d # ds \<Rightarrow>
          if length (takeWhile isDigit (d # ds)) \<le> MAX_SAFE_COMPONENT_LENGTH
          then Some (takeWhile isDigit (d # ds), dropWhile isDigit (d # ds))
          else coerceFind (dropWhile isDigit (d # ds)))"
  by pat_completeness auto
termination
proof (relation "measure length")
  show "wf (measure length)" by simp
next
  fix s :: string and d ds
  assume a: "dropWhile (\<lambda>c. \<not> isDigit c) s = d # ds"
  have "isDigit d" using a by (metis dropWhile_eq_Cons_conv)
  then have "length (dropWhile isDigit (d # ds)) < length (d # ds)"
    by (simp add: le_imp_less_Suc length_dropWhile_le)
  moreover have "length (d # ds) \<le> length s"
    using a length_dropWhile_le [of "\<lambda>c. \<not> isDigit c" s] by simp
  ultimately show "(dropWhile isDigit (d # ds), s) \<in> measure length" by simp
qed

declare coerceFind.simps [simp del]

definition coerceComponent :: "string \<Rightarrow> (string \<times> string) option" where
  \<comment> \<open>\<open>(?:\<bsol>.(\<bsol>d{1,16}))?\<close> followed by the rest of \<open>COERCE\<close>: a dot and a maximal run
      of 1 to 16 digits, or nothing\<close>
  "coerceComponent r =
     (case r of
        [] \<Rightarrow> None
      | c # cs \<Rightarrow>
          if c = CHR ''.'' \<and> takeWhile isDigit cs \<noteq> [] \<and>
             length (takeWhile isDigit cs) \<le> MAX_SAFE_COMPONENT_LENGTH
          then Some (takeWhile isDigit cs, dropWhile isDigit cs) else None)"

definition coerce :: "string \<Rightarrow> SemVer option" where
  \<comment> \<open>\<open>semver.coerce\<close> of a string, without options\<close>
  "coerce version =
     (case coerceFind version of
        None \<Rightarrow> None
      | Some (mj, r1) \<Rightarrow>
          (case coerceComponent r1 of
             None \<Rightarrow> parse (mj @ ''.'' @ ''0'' @ ''.'' @ ''0'')
           | Some (mn, r2) \<Rightarrow>
               (case coerceComponent r2 of
                  None \<Rightarrow> parse (mj @ ''.'' @ mn @ ''.'' @ ''0'')
                | Some (pt, r3) \<Rightarrow> parse (mj @ ''.'' @ mn @ ''.'' @ pt))))"

section \<open>AugmentMonitor: version normalisation\<close>

definition normalizeVersion :: "string option \<Rightarrow> string option" where
  \<comment> \<open>\<open>AugmentMonitor.normalizeVersion\<close>; the empty string is falsy\<close>
  "normalizeVersion version =
     (case version of
        None \<Rightarrow> None
      | Some v \<Rightarrow>
          if v = [] then None
          else (case coerce v of None \<Rightarrow> None | Some c \<Rightarrow> Some (format c)))"

section \<open>Update decision\<close>

definition isOutdated :: "string option \<Rightarrow> string \<Rightarrow> error + bool" where
  \<comment> \<open>\<open>AugmentMonitor.run\<close>, per detected IDE:
      \<open>!status.version || semver.gt(latestVersion, status.version)\<close>, on the raw strings.
      The empty string is falsy; \<open>semver.gt\<close> throws on an invalid version.\<close>
  "isOutdated version latestVersion =
     (case version of
        None \<Rightarrow> Inr True
      | Some v \<Rightarrow> if v = [] then Inr True else gt latestVersion v)"

record cliUpdate =
  cliLatestVersion :: "string option"
  cliNeedsUpdate :: bool
  cliError :: "string option"

definition checkForUpdate :: "string \<Rightarrow> error + string \<Rightarrow> cliUpdate" where
  \<comment> \<open>\<open>CLIManager.checkAllForUpdates\<close>, the body of the loop for one detected CLI:
      \<open>getLatestVersion\<close> and \<open>semver.gt(latestVersion, cli.installedVersion)\<close> stand in
      one try block\<close>
  "checkForUpdate installedVersion latest =
     (case latest of
        Inl e \<Rightarrow> \<lparr>cliLatestVersion = None, cliNeedsUpdate = False, cliError = Some e\<rparr>
      | Inr l \<Rightarrow>
          (case gt l installedVersion of
             Inl e \<Rightarrow> \<lparr>cliLatestVersion = None, cliNeedsUpdate = False, cliError = Some e\<rparr>
           | Inr b \<Rightarrow> \<lparr>cliLatestVersion = Some l, cliNeedsUpdate = b, cliError = None\<rparr>))"

definition needsUpdate :: "string option \<Rightarrow> string \<Rightarrow> bool" where
  \<comment> \<open>The specification's \<open>needsUpdate(installed, latest)\<close>, in its words:
      installed is absent, or \<open>normalize(latest) > normalize(installed)\<close>.\<close>
  "needsUpdate installed latest \<longleftrightarrow>
     installed = None \<or>
     (case (normalizeVersion (Some latest), normalizeVersion installed) of
        (Some l, Some i) \<Rightarrow> gt l i = Inr True
      | _ \<Rightarrow> False)"

section \<open>Installed version from the extension directory\<close>

datatype dirRead = NoDir | ReadError error | Listing "string list"

fun replaceFirst :: "string \<Rightarrow> string \<Rightarrow> string \<Rightarrow> string" where
  \<comment> \<open>\<open>s.replace(pat, rep)\<close> for a string pattern and a replacement without \<open>$\<close>:
      the first occurrence only\<close>
  "replaceFirst pat rep [] = (if pat = [] then rep else [])"
| "replaceFirst pat rep (c # cs) =
     (if startsWith (c # cs) pat then rep @ drop (length pat) (c # cs)
      else c # replaceFirst pat rep cs)"

definition truthy :: "string option \<Rightarrow> bool" where
  \<comment> \<open>a string or \<open>null\<close> in a condition: \<open>null\<close> and the empty string are falsy\<close>
  "truthy v = (case v of None \<Rightarrow> False | Some s \<Rightarrow> s \<noteq> [])"

definition getExtensionVersionFromDir :: "dirRead \<Rightarrow> string \<Rightarrow> string option" where
  \<comment> \<open>\<open>IDEManager.getExtensionVersionFromDir\<close> (index.js and the module of the managers
      directory have the same body); the first argument is what \<open>fs.existsSync\<close> and
      \<open>fs.readdirSync\<close> give for \<open>extensionDir\<close>. Every exception is swallowed.\<close>
  "getExtensionVersionFromDir dir extensionId =
     (case dir of
        NoDir \<Rightarrow> None
      | ReadError e \<Rightarrow> None
      | Listing extensions \<Rightarrow>
          let prefix = extensionId @ ''-'';
              augmentFolders = filter (\<lambda>folder. startsWith folder prefix) extensions
          in if length augmentFolders > 0
             then (case sortBy rcompare
                          (filter (\<lambda>v. truthy (valid v))
                             (map (\<lambda>folder. replaceFirst prefix [] folder) augmentFolders)) of
                     Inl e \<Rightarrow> None
                   | Inr versions \<Rightarrow>
                       (case versions of [] \<Rightarrow> None | v # vs \<Rightarrow> Some v))
             else None)"

section \<open>Source directory of the profile fanout\<close>

definition latestExtensionDir :: "string list \<Rightarrow> string option" where
  \<comment> \<open>\<open>IDEManager.copyExtensionToAllProfiles\<close>: the directory of the default extensions
      folder that is replicated, \<open>extensionDirs.sort().pop()\<close>; \<open>None\<close> where the
      function returns early because no directory matches\<close>
  "latestExtensionDir entries =
     (let extensionDirs = filter (\<lambda>dir. startsWith dir ''augment.vscode-augment-'') entries
      in if length extensionDirs = 0 then None
         else (case sortBy defaultCompare extensionDirs of
                 Inl e \<Rightarrow> None
               | Inr sortedDirs \<Rightarrow> (case rev sortedDirs of [] \<Rightarrow> None | d # ds \<Rightarrow> Some d)))"


section \<open>AugmentMonitor: download, installation, verification and cleanup\<close>

text \<open>
  The run is modelled over an explicit state (the files on disk, the downloads requested,
  the waits and the scans made so far) and an environment that answers what the program
  asks of the outside: the HTTP responses, the outcome of each installation command, what
  each scan of the IDEs observes, and the operator's choice.
\<close>

datatype fetchResult =
    FetchThrows error
  | Response nat "error + string"
  \<comment> \<open>\<open>fetch\<close> rejects, or resolves with a status and what \<open>response.buffer()\<close> gives\<close>

definition responseOk :: "nat \<Rightarrow> bool" where
  \<comment> \<open>\<open>response.ok\<close>: the status is in the range 200 to 299\<close>
  "responseOk status \<longleftrightarrow> 200 \<le> status \<and> status \<le> 299"

record attempt =
  fetched :: fetchResult
  writeError :: "error option"

record ideStatus =
  stIde :: string
  stName :: string
  stCommand :: string
  stVersion :: "string option"

record runState =
  files :: "string set"
  fetches :: nat
  delays :: "nat list"
  scans :: nat

record runEnv =
  isDryRun :: bool
  isCronMode :: bool
  forceFlag :: bool
  tempDir :: string
  detectError :: "error option"
  scanIDEs :: "nat \<Rightarrow> ideStatus list"
  latest :: "error + string"
  dialog :: "string option"
  choice :: string
  download :: "nat \<Rightarrow> attempt"
  installError :: "string \<Rightarrow> error option"
  unlinkError :: "error option"

definition maxRetries :: nat where
  \<comment> \<open>\<open>downloadVsix\<close>: \<open>const maxRetries = 3\<close>\<close>
  "maxRetries = 3"

definition vsixFile :: "runEnv \<Rightarrow> string \<Rightarrow> string" where
  \<comment> \<open>\<open>path.join(this.tempDir, `${this.extensionId}-${version}.vsix`)\<close>\<close>
  "vsixFile env v = tempDir env @ ''/'' @ ''augment.vscode-augment'' @ ''-'' @ v @ ''.vsix''"

definition tryDownload :: "runEnv \<Rightarrow> string \<Rightarrow> nat \<Rightarrow> runState \<Rightarrow> (error + string) \<times> runState" where
  \<comment> \<open>the try block of one turn of the loop of \<open>downloadVsix\<close>; a dry run returns the
      path at once, without any request\<close>
  "tryDownload env v n st =
     (if isDryRun env then (Inr (vsixFile env v), st)
      else
        let st1 = st\<lparr>fetches := fetches st + 1\<rparr> in
        case fetched (download env n) of
          FetchThrows e \<Rightarrow> (Inl e, st1)
        | Response status body \<Rightarrow>
            if \<not> responseOk status
            then (Inl (''Download failed with status: '' @ showNat status), st1)
            else (case body of
                    Inl e \<Rightarrow> (Inl e, st1)
                  | Inr buffer \<Rightarrow>
                      if length buffer = 0 then (Inl ''Downloaded file is empty'', st1)
                      else (case writeError (download env n) of
                              Some e \<Rightarrow> (Inl e, st1)
                            | None \<Rightarrow>
                                let st2 = st1\<lparr>files := insert (vsixFile env v) (files st1)\<rparr> in
                                if vsixFile env v \<notin> files st2
                                then (Inl ''File write verification failed'', st2)
                                else (Inr (vsixFile env v), st2))))"

fun downloadLoop :: "runEnv \<Rightarrow> string \<Rightarrow> nat list \<Rightarrow> error \<Rightarrow> runState \<Rightarrow> (error + string) \<times> runState" where
  \<comment> \<open>\<open>for (let attempt = 1; attempt <= maxRetries; attempt++)\<close>, over the attempt
      numbers still to run; after the loop the function throws\<close>
  "downloadLoop env v [] lastError st =
     (Inl (''Download failed after '' @ showNat maxRetries @ '' attempts. Last error: '' @ lastError),
      st)"
| "downloadLoop env v (n # rest) lastError st =
     (case tryDownload env v n st of
        (Inr p, st1) \<Rightarrow> (Inr p, st1)
      | (Inl e, st1) \<Rightarrow>
          downloadLoop env v rest e
            (if n < maxRetries then st1\<lparr>delays := delays st1 @ [2000 * n]\<rparr> else st1))"

definition downloadVsix :: "runEnv \<Rightarrow> string \<Rightarrow> runState \<Rightarrow> (error + string) \<times> runState" where
  \<comment> \<open>\<open>AugmentMonitor.downloadVsix\<close>\<close>
  "downloadVsix env v st = downloadLoop env v [1..<maxRetries + 1] [] st"

definition installExtensions :: "runEnv \<Rightarrow> ideStatus list \<Rightarrow> (ideStatus \<times> error option) list" where
  \<comment> \<open>\<open>AugmentMonitor.installExtensions\<close>: one result per target, with the error of a
      failed installation command; a dry run records success\<close>
  "installExtensions env targets =
     map (\<lambda>t. (t, if isDryRun env then None else installError env (stIde t))) targets"

fun verifyAttempts :: "runEnv \<Rightarrow> ideStatus \<Rightarrow> string \<Rightarrow> nat list \<Rightarrow> runState \<Rightarrow> bool \<times> runState" where
  \<comment> \<open>the inner loop of \<open>verifyInstallations\<close>: wait 3 seconds, scan, compare the raw
      strings with \<open>===\<close>\<close>
  "verifyAttempts env target expected [] st = (False, st)"
| "verifyAttempts env target expected (n # rest) st =
     (let st1 = st\<lparr>delays := delays st @ [3000], scans := scans st + 1\<rparr> in
      case find (\<lambda>s. stIde s = stIde target) (scanIDEs env (scans st1)) of
        None \<Rightarrow> verifyAttempts env target expected rest st1
      | Some s \<Rightarrow>
          if stVersion s = Some expected then (True, st1)
          else verifyAttempts env target expected rest st1)"

fun verifyTargets :: "runEnv \<Rightarrow> ideStatus list \<Rightarrow> string \<Rightarrow> runState \<Rightarrow> ideStatus list \<times> runState" where
  \<comment> \<open>the outer loop of \<open>verifyInstallations\<close>; the result is the list \<open>failed\<close>\<close>
  "verifyTargets env [] expected st = ([], st)"
| "verifyTargets env (t # ts) expected st =
     (case verifyAttempts env t expected [1..<6] st of
        (verified, st1) \<Rightarrow>
          (case verifyTargets env ts expected st1 of
             (failed, st2) \<Rightarrow> (if verified then failed else t # failed, st2)))"

definition verifyInstallations :: "runEnv \<Rightarrow> ideStatus list \<Rightarrow> string \<Rightarrow> runState \<Rightarrow> (bool \<times> ideStatus list) \<times> runState" where
  \<comment> \<open>\<open>AugmentMonitor.verifyInstallations\<close>: \<open>{ success, failed }\<close>\<close>
  "verifyInstallations env targets expected st =
     (if isDryRun env then ((True, []), st)
      else (case verifyTargets env targets expected st of
              (failed, st1) \<Rightarrow> ((length failed = 0, failed), st1)))"

definition cleanupFile :: "runEnv \<Rightarrow> string \<Rightarrow> runState \<Rightarrow> runState" where
  \<comment> \<open>\<open>AugmentMonitor.cleanupFile\<close>: an error of \<open>unlinkSync\<close> is logged and swallowed\<close>
  "cleanupFile env filePath st =
     (if isDryRun env then st
      else if filePath \<in> files st
           then (case unlinkError env of
                   Some e \<Rightarrow> st
                 | None \<Rightarrow> st\<lparr>files := files st - {filePath}\<rparr>)
           else st)"

datatype unitStatus = InstallFailed | Success | VerifyFailed

record runResult =
  exitCode :: nat
  finalState :: runState
  summary :: "(string \<times> unitStatus) list"
  vsixPath :: "string option"

definition summaryRow :: "(ideStatus \<times> error option) list \<Rightarrow> bool \<times> ideStatus list \<Rightarrow> ideStatus \<Rightarrow> string \<times> unitStatus" where
  \<comment> \<open>one row of the update summary of \<open>run\<close>\<close>
  "summaryRow installResults verifyResult t =
     (let installResult = find (\<lambda>r. stIde (fst r) = stIde t) installResults;
          isVerified = (fst verifyResult \<and> \<not> list_ex (\<lambda>f. stIde f = stIde t) (snd verifyResult))
      in (stName t,
          if (case installResult of None \<Rightarrow> False | Some r \<Rightarrow> snd r \<noteq> None) then InstallFailed
          else if isVerified then Success
          else VerifyFailed))"

definition performUpdate :: "runEnv \<Rightarrow> ideStatus list \<Rightarrow> string \<Rightarrow> runState \<Rightarrow> runResult" where
  \<comment> \<open>\<open>run\<close>, from \<open>let vsixPath = null\<close> on: the block \<open>try ... catch ... finally\<close>
      and the outer \<open>catch\<close>. Only \<open>downloadVsix\<close> can throw in the \<open>try\<close> block; the
      error is rethrown, \<open>vsixPath\<close> is still \<open>null\<close> in \<open>finally\<close>, and the outer
      \<open>catch\<close> ends the process with code 1.\<close>
  "performUpdate env targets latestVersion st =
     (case downloadVsix env latestVersion st of
        (Inl e, st1) \<Rightarrow> \<lparr>exitCode = 1, finalState = st1, summary = [], vsixPath = None\<rparr>
      | (Inr p, st1) \<Rightarrow>
          let installResults = installExtensions env targets;
              successfulInstalls = map fst (filter (\<lambda>r. snd r = None) installResults)
          in (case verifyInstallations env successfulInstalls latestVersion st1 of
                (verifyResult, st2) \<Rightarrow>
                  \<lparr>exitCode = 0,
                   finalState = cleanupFile env p st2,
                   summary = map (summaryRow installResults verifyResult) targets,
                   vsixPath = Some p\<rparr>))"

fun outdatedFlags :: "string \<Rightarrow> ideStatus list \<Rightarrow> error + bool list" where
  \<comment> \<open>\<open>isOutdated\<close> for each status in turn; the TypeError of \<open>semver.gt\<close> ends it\<close>
  "outdatedFlags latestVersion [] = Inr []"
| "outdatedFlags latestVersion (s # ss) =
     (case isOutdated (stVersion s) latestVersion of
        Inl e \<Rightarrow> Inl e
      | Inr b \<Rightarrow>
          (case outdatedFlags latestVersion ss of
             Inl e \<Rightarrow> Inl e
           | Inr bs \<Rightarrow> Inr (b # bs)))"

definition sendNativeNotification :: "runEnv \<Rightarrow> string option" where
  \<comment> \<open>\<open>AugmentMonitor.sendNativeNotification\<close>: \<open>OK\<close> in a dry run, else the button of
      the dialog, \<open>null\<close> when the dialog fails\<close>
  "sendNativeNotification env = (if isDryRun env then Some ''OK'' else dialog env)"

definition promptSelection :: "runEnv \<Rightarrow> ideStatus list \<Rightarrow> string \<Rightarrow> error + ideStatus list" where
  \<comment> \<open>\<open>AugmentMonitor.promptSelection\<close>; \<open>choice\<close> is the operator's answer after
      \<open>toLowerCase().trim()\<close>\<close>
  "promptSelection env ideStatus latestVersion =
     (if isCronMode env
      then (case outdatedFlags latestVersion ideStatus of
              Inl e \<Rightarrow> Inl e
            | Inr flags \<Rightarrow>
                let updatesNeeded = map fst (filter snd (zip ideStatus flags)) in
                if length updatesNeeded = 0 then Inr []
                else if sendNativeNotification env = Some ''Update All'' then Inr updatesNeeded
                else Inr [])
      else
        let options = (''a'', ideStatus) #
                      map (\<lambda>(i, s). (showNat i, [s])) (zip [1..<length ideStatus + 1] ideStatus)
        in if choice env = ''q'' then Inr []
           else (case find (\<lambda>opt. fst opt = choice env) options of
                   Some opt \<Rightarrow> Inr (snd opt)
                 | None \<Rightarrow> Inr []))"

definition fatal :: "runState \<Rightarrow> runResult" where
  \<comment> \<open>the outer \<open>catch\<close> of \<open>run\<close>: \<open>process.exit(1)\<close>\<close>
  "fatal st = \<lparr>exitCode = 1, finalState = st, summary = [], vsixPath = None\<rparr>"

definition finished :: "runState \<Rightarrow> runResult" where
  \<comment> \<open>\<open>run\<close> returns before any download\<close>
  "finished st = \<lparr>exitCode = 0, finalState = st, summary = [], vsixPath = None\<rparr>"

definition run :: "runEnv \<Rightarrow> runState \<Rightarrow> runResult" where
  \<comment> \<open>\<open>AugmentMonitor.run\<close> (index.js, the version with the IDE selection)\<close>
  "run env st =
     (case detectError env of
        Some e \<Rightarrow> fatal st
      | None \<Rightarrow>
          let st1 = st\<lparr>scans := scans st + 1\<rparr>;
              status = scanIDEs env (scans st1)
          in (case latest env of
                Inl e \<Rightarrow> fatal st1
              | Inr latestVersion \<Rightarrow>
                  (case outdatedFlags latestVersion status of
                     Inl e \<Rightarrow> fatal st1
                   | Inr flags \<Rightarrow>
                       if \<not> list_ex id flags \<and> \<not> forceFlag env \<and> isCronMode env
                       then finished st1
                       else (case promptSelection env status latestVersion of
                               Inl e \<Rightarrow> fatal st1
                             | Inr targets \<Rightarrow>
                                 if length targets = 0 then finished st1
                                 else performUpdate env targets latestVersion st1))))"

definition startState :: runState where
  \<comment> \<open>an empty temporary directory, nothing requested yet\<close>
  "startState = \<lparr>files = {}, fetches = 0, delays = [], scans = 0\<rparr>"

definition cursorStatus :: "string option \<Rightarrow> ideStatus" where
  "cursorStatus v = \<lparr>stIde = ''cursor'', stName = ''Cursor'', stCommand = ''cursor'', stVersion = v\<rparr>"

definition staleEnv :: runEnv where
  \<comment> \<open>An interactive run: Cursor holds 0.560.0, the marketplace offers 0.576.0, the
      operator picks all IDEs, the download and the installation command succeed, and every
      later scan still finds 0.560.0.\<close>
  "staleEnv =
     \<lparr>isDryRun = False, isCronMode = False, forceFlag = False, tempDir = ''temp'',
      detectError = None,
      scanIDEs = (\<lambda>n. [cursorStatus (Some ''0.560.0'')]),
      latest = Inr ''0.576.0'',
      dialog = None, choice = ''a'',
      download = (\<lambda>n. \<lparr>fetched = Response 200 (Inr ''PK''), writeError = None\<rparr>),
      installError = (\<lambda>i. None),
      unlinkError = None\<rparr>"

definition flakyEnv :: runEnv where
  \<comment> \<open>as \<open>staleEnv\<close>, but the first two downloads answer 500 and the scans after the
      installation find 0.576.0\<close>
  "flakyEnv =
     staleEnv\<lparr>scanIDEs := (\<lambda>n. [cursorStatus (Some (if n \<le> 1 then ''0.560.0'' else ''0.576.0''))]),
              download := (\<lambda>n. if n < 3 then \<lparr>fetched = Response 500 (Inr ''''), writeError = None\<rparr>
                                else \<lparr>fetched = Response 200 (Inr ''PK''), writeError = None\<rparr>)\<rparr>"

definition offlineEnv :: runEnv where
  \<comment> \<open>as \<open>staleEnv\<close>, but every download fails\<close>
  "offlineEnv = staleEnv\<lparr>download := (\<lambda>n. \<lparr>fetched = FetchThrows ''ETIMEDOUT'', writeError = None\<rparr>)\<rparr>"

section \<open>IDEManager: detection of the available IDEs\<close>

record ideConfig =
  cfgName :: string
  cfgListExtensions :: string
  cfgInstallExtension :: string
  cfgVersion :: string
  cfgEnvVar :: string
  cfgPriority :: int

definition supportedIDEs :: "(string \<times> ideConfig) list" where
  \<comment> \<open>\<open>this.supportedIDEs\<close>, in the order of \<open>Object.entries\<close>\<close>
  "supportedIDEs =
     [(''cursor'',
       \<lparr>cfgName = ''Cursor'', cfgListExtensions = ''--list-extensions --show-versions'',
        cfgInstallExtension = ''--install-extension'', cfgVersion = ''--version'',
        cfgEnvVar = ''CURSOR_PATH'', cfgPriority = 1\<rparr>),
      (''vscode'',
       \<lparr>cfgName = ''VS Code'', cfgListExtensions = ''--list-extensions'',
        cfgInstallExtension = ''--install-extension'', cfgVersion = ''--version'',
        cfgEnvVar = ''VSCODE_PATH'', cfgPriority = 2\<rparr>),
      (''antigravity'',
       \<lparr>cfgName = ''Antigravity'', cfgListExtensions = ''--list-extensions --show-versions'',
        cfgInstallExtension = ''--install-extension'', cfgVersion = ''--version'',
        cfgEnvVar = ''ANTIGRAVITY_PATH'', cfgPriority = 3\<rparr>)]"

record detectEnv =
  processEnv :: "string \<Rightarrow> string option"
  execSucceeds :: "string \<Rightarrow> bool"
  platform :: string
  existsSync :: "string \<Rightarrow> bool"

record detectedIDE =
  dIde :: string
  dConfig :: ideConfig
  dCommand :: string
  dPriority :: int

definition orElse :: "string option \<Rightarrow> string option \<Rightarrow> string option" where
  \<comment> \<open>\<open>a || b\<close> on strings that may be \<open>undefined\<close>\<close>
  "orElse a b = (if truthy a then a else b)"

definition templateString :: "string option \<Rightarrow> string" where
  \<comment> \<open>\<open>`${x}`\<close>: \<open>undefined\<close> prints as the word\<close>
  "templateString a = (case a of None \<Rightarrow> ''undefined'' | Some s \<Rightarrow> s)"

definition macPaths :: "detectEnv \<Rightarrow> string \<Rightarrow> string option" where
  \<comment> \<open>\<open>this.macPaths[ide]\<close>\<close>
  "macPaths env i =
     (if i = ''cursor'' then Some ''/Applications/Cursor.app/Contents/Resources/app/bin/cursor''
      else if i = ''vscode''
      then Some ''/Applications/Visual Studio Code.app/Contents/Resources/app/bin/code''
      else if i = ''antigravity''
      then Some (templateString (processEnv env ''HOME'') @ ''/.antigravity/antigravity/bin/antigravity'')
      else None)"

definition pathJoin :: "string option list \<Rightarrow> error + string" where
  \<comment> \<open>\<open>path.join\<close>: a TypeError for an argument that is not a string; the segments
      that are not empty, joined by \<open>/\<close>, and \<open>.\<close> when nothing is left. The
      normalisation of \<open>..\<close> and of doubled separators is not modelled.\<close>
  "pathJoin segs =
     (if list_ex (\<lambda>s. s = None) segs
      then Inl ''The \"path\" argument must be of type string''
      else let parts = filter (\<lambda>s. s \<noteq> []) (map the segs)
           in Inr (if parts = [] then ''.'' else joinWith ''/'' parts))"

definition extensionPath :: "detectEnv \<Rightarrow> string \<Rightarrow> error + string option" where
  \<comment> \<open>the \<open>switch (ide)\<close> of \<open>detectAvailableIDEs\<close>, with
      \<open>homeDir = process.env.HOME || process.env.USERPROFILE\<close>\<close>
  "extensionPath env i =
     (let homeDir = orElse (processEnv env ''HOME'') (processEnv env ''USERPROFILE'');
          dir = (if i = ''cursor'' then Some ''.cursor''
                 else if i = ''vscode'' then Some ''.vscode''
                 else if i = ''antigravity'' then Some ''.antigravity''
                 else None)
      in case dir of
           None \<Rightarrow> Inr None
         | Some d \<Rightarrow>
             (case pathJoin [homeDir, Some d, Some ''extensions''] of
                Inl e \<Rightarrow> Inl e
              | Inr p \<Rightarrow> Inr (Some p)))"

definition detectTarget :: "detectEnv \<Rightarrow> string \<times> ideConfig \<Rightarrow> error + detectedIDE option" where
  \<comment> \<open>the body of the outer \<open>try\<close> of the loop of \<open>detectAvailableIDEs\<close> for one
      entry: \<open>Inl\<close> is an exception that reaches the outer \<open>catch\<close>, \<open>Inr None\<close> is
      \<open>not available\<close>, \<open>Inr (Some d)\<close> is what \<open>available.push\<close> receives\<close>
  "detectTarget env t =
     (let i = fst t; config = snd t;
          command0 = templateString (orElse (processEnv env (cfgEnvVar config)) (Some i));
          cli = execSucceeds env (command0 @ '' '' @ cfgVersion config);
          mac = (\<not> cli \<and> platform env = ''darwin'' \<and>
                 (case macPaths env i of None \<Rightarrow> False | Some p \<Rightarrow> existsSync env p));
          command = (if mac then [CHR 0x22] @ the (macPaths env i) @ [CHR 0x22] else command0)
      in if cli \<or> mac
         then Inr (Some \<lparr>dIde = i, dConfig = config, dCommand = command,
                          dPriority = cfgPriority config\<rparr>)
         else (case extensionPath env i of
                 Inl e \<Rightarrow> Inl e
               | Inr None \<Rightarrow> Inr None
               | Inr (Some p) \<Rightarrow>
                   if existsSync env p
                   then Inr (Some \<lparr>dIde = i, dConfig = config, dCommand = command,
                                    dPriority = cfgPriority config\<rparr>)
                   else Inr None))"

fun detectLoop :: "detectEnv \<Rightarrow> (string \<times> ideConfig) list \<Rightarrow> detectedIDE list" where
  \<comment> \<open>\<open>for (const [ide, config] of Object.entries(this.supportedIDEs))\<close>: the list
      \<open>available\<close> after the loop; the outer \<open>catch\<close> logs and goes on\<close>
  "detectLoop env [] = []"
| "detectLoop env (t # ts) =
     (case detectTarget env t of
        Inl e \<Rightarrow> detectLoop env ts
      | Inr None \<Rightarrow> detectLoop env ts
      | Inr (Some d) \<Rightarrow> d # detectLoop env ts)"

definition byPriority :: "detectedIDE \<Rightarrow> detectedIDE \<Rightarrow> error + int" where
  \<comment> \<open>\<open>(a, b) => a.priority - b.priority\<close>\<close>
  "byPriority a b = Inr (dPriority a - dPriority b)"

definition detectAvailableIDEs :: "detectEnv \<Rightarrow> (string \<times> ideConfig) list \<Rightarrow> error + detectedIDE list" where
  \<comment> \<open>\<open>IDEManager.detectAvailableIDEs\<close> of index.js\<close>
  "detectAvailableIDEs env targets =
     (case sortBy byPriority (detectLoop env targets) of
        Inl e \<Rightarrow> Inl e
      | Inr available \<Rightarrow>
          if length available = 0 then Inl ''No supported IDE found (Cursor or VS Code)''
          else Inr available)"

definition getExtensionPath :: "detectEnv \<Rightarrow> string \<Rightarrow> error + string option" where
  \<comment> \<open>\<open>IDEManager.getExtensionPath\<close> of the managers directory: the three paths are
      built before the lookup\<close>
  "getExtensionPath env i =
     (let homeDir = orElse (processEnv env ''HOME'') (processEnv env ''USERPROFILE'') in
      case pathJoin [homeDir, Some ''.cursor'', Some ''extensions''] of
        Inl e \<Rightarrow> Inl e
      | Inr c \<Rightarrow>
          (case pathJoin [homeDir, Some ''.vscode'', Some ''extensions''] of
             Inl e \<Rightarrow> Inl e
           | Inr v \<Rightarrow>
               (case pathJoin [homeDir, Some ''.antigravity'', Some ''extensions''] of
                  Inl e \<Rightarrow> Inl e
                | Inr a \<Rightarrow>
                    Inr (if i = ''cursor'' then Some c
                         else if i = ''vscode'' then Some v
                         else if i = ''antigravity'' then Some a
                         else None))))"

definition detectTargetModule :: "detectEnv \<Rightarrow> string \<times> ideConfig \<Rightarrow> error + detectedIDE option" where
  \<comment> \<open>the body of the loop of \<open>detectAvailableIDEs\<close> of the managers directory\<close>
  "detectTargetModule env t =
     (let i = fst t; config = snd t;
          command0 = templateString (orElse (processEnv env (cfgEnvVar config)) (Some i));
          cli = execSucceeds env (command0 @ '' '' @ cfgVersion config);
          mac = (\<not> cli \<and> platform env = ''darwin'' \<and>
                 (case macPaths env i of None \<Rightarrow> False | Some p \<Rightarrow> existsSync env p));
          command = (if mac then [CHR 0x22] @ the (macPaths env i) @ [CHR 0x22] else command0)
      in if cli \<or> mac
         then Inr (Some \<lparr>dIde = i, dConfig = config, dCommand = command,
                          dPriority = cfgPriority config\<rparr>)
         else (case getExtensionPath env i of
                 Inl e \<Rightarrow> Inl e
               | Inr None \<Rightarrow> Inr None
               | Inr (Some p) \<Rightarrow>
                   if existsSync env p
                   then Inr (Some \<lparr>dIde = i, dConfig = config, dCommand = command,
                                    dPriority = cfgPriority config\<rparr>)
                   else Inr None))"

fun detectLoopModule :: "detectEnv \<Rightarrow> (string \<times> ideConfig) list \<Rightarrow> detectedIDE list" where
  "detectLoopModule env [] = []"
| "detectLoopModule env (t # ts) =
     (case detectTargetModule env t of
        Inl e \<Rightarrow> detectLoopModule env ts
      | Inr None \<Rightarrow> detectLoopModule env ts
      | Inr (Some d) \<Rightarrow> d # detectLoopModule env ts)"

definition detectAvailableIDEsModule :: "detectEnv \<Rightarrow> (string \<times> ideConfig) list \<Rightarrow> error + detectedIDE list" where
  \<comment> \<open>\<open>IDEManager.detectAvailableIDEs\<close> of the managers directory: an empty list is
      returned as it is\<close>
  "detectAvailableIDEsModule env targets = sortBy byPriority (detectLoopModule env targets)"

definition bareEnv :: detectEnv where
  \<comment> \<open>a machine without any of the IDEs, and with neither HOME nor USERPROFILE set\<close>
  "bareEnv = \<lparr>processEnv = (\<lambda>k. None), execSucceeds = (\<lambda>c. False), platform = ''linux'',
              existsSync = (\<lambda>p. False)\<rparr>"

definition codeOnlyEnv :: detectEnv where
  \<comment> \<open>neither HOME nor USERPROFILE is set, and only the command \<open>vscode --version\<close>
      succeeds\<close>
  "codeOnlyEnv = bareEnv\<lparr>execSucceeds := (\<lambda>c. c = ''vscode --version'')\<rparr>"

section \<open>JSON values as JavaScript reads them\<close>

text \<open>
  A parsed JSON text is a \<open>json\<close>; a JavaScript value that may be \<open>undefined\<close> is a
  \<open>json option\<close>. \<open>JNumber\<close> carries the numbers that are integers; the program
  only tests numbers for truth. The properties read by the program (\<open>results\<close>,
  \<open>extensions\<close>, \<open>versions\<close>, \<open>version\<close>, \<open>identifier\<close>, \<open>id\<close>) are not
  properties of the prototypes, so that reading them from an array, a string, a number
  or a boolean gives \<open>undefined\<close>.
\<close>

datatype json =
    JNull
  | JBool bool
  | JNumber int
  | JString string
  | JArray "json list"
  | JObject "(string \<times> json) list"

definition jsTruthy :: "json option \<Rightarrow> bool" where
  "jsTruthy v =
     (case v of
        None \<Rightarrow> False
      | Some JNull \<Rightarrow> False
      | Some (JBool b) \<Rightarrow> b
      | Some (JNumber n) \<Rightarrow> n \<noteq> 0
      | Some (JString s) \<Rightarrow> s \<noteq> []
      | Some (JArray xs) \<Rightarrow> True
      | Some (JObject kvs) \<Rightarrow> True)"

definition getProp :: "json option \<Rightarrow> string \<Rightarrow> error + json option" where
  \<comment> \<open>\<open>x.key\<close>: a TypeError on \<open>undefined\<close> and \<open>null\<close>\<close>
  "getProp x key =
     (case x of
        None \<Rightarrow> Inl (''Cannot read properties of undefined (reading '' @ key @ '')'')
      | Some JNull \<Rightarrow> Inl (''Cannot read properties of null (reading '' @ key @ '')'')
      | Some (JObject kvs) \<Rightarrow> Inr (map_of kvs key)
      | Some other \<Rightarrow> Inr None)"


section \<open>AugmentMonitor: the latest version\<close>







fun findFirst :: "(string \<Rightarrow> string option) \<Rightarrow> string \<Rightarrow> string option" where
  \<comment> \<open>\<open>s.match(re)\<close> for a pattern given by its match at the head of a text: the
      leftmost position where it matches, and the first group there\<close>
  "findFirst m [] = m []"
| "findFirst m (c # cs) = (case m (c # cs) of Some r \<Rightarrow> Some r | None \<Rightarrow> findFirst m cs)"














section \<open>IDEManager: the registry of a profile\<close>

datatype fileContent =
    JsonFile json
  | Unparsable
  \<comment> \<open>a file whose text \<open>JSON.parse\<close> reads as the value, or rejects\<close>

type_synonym fileStore = "string \<Rightarrow> fileContent option"

definition packageId :: string where
  "packageId = ''augment.vscode-augment''"

definition keepEntry :: "json \<Rightarrow> error + bool" where
  \<comment> \<open>the callback of \<open>extensionsData.filter\<close> in \<open>updateProfileExtensionsJson\<close>:
      \<open>!ext.identifier || !ext.identifier.id || !ext.identifier.id.includes(...)\<close>.
      \<open>includes\<close> is a method of strings (substring) and of arrays (element).\<close>
  "keepEntry ext =
     (case getProp (Some ext) ''identifier'' of
        Inl e \<Rightarrow> Inl e
      | Inr ident \<Rightarrow>
          if \<not> jsTruthy ident then Inr True
          else (case getProp ident ''id'' of
                  Inl e \<Rightarrow> Inl e
                | Inr idv \<Rightarrow>
                    if \<not> jsTruthy idv then Inr True
                    else (case idv of
                            Some (JString s) \<Rightarrow> Inr (\<not> includesStr s packageId)
                          | Some (JArray xs) \<Rightarrow> Inr (JString packageId \<notin> set xs)
                          | other \<Rightarrow> Inl ''ext.identifier.id.includes is not a function'')))"

fun filterE :: "('a \<Rightarrow> error + bool) \<Rightarrow> 'a list \<Rightarrow> error + 'a list" where
  \<comment> \<open>\<open>xs.filter(f)\<close> for a callback that may throw\<close>
  "filterE f [] = Inr []"
| "filterE f (x # xs) =
     (case f x of
        Inl e \<Rightarrow> Inl e
      | Inr b \<Rightarrow>
          (case filterE f xs of
             Inl e \<Rightarrow> Inl e
           | Inr ys \<Rightarrow> Inr (if b then x # ys else ys)))"

definition isLineTerminator :: "char \<Rightarrow> bool" where
  \<comment> \<open>what \<open>.\<close> does not match, below 256: LF and CR\<close>
  "isLineTerminator c \<longleftrightarrow> c = CHR 0x0A \<or> c = CHR 0x0D"

definition versionOfDir :: "string \<Rightarrow> string" where
  \<comment> \<open>\<open>extensionDirName.match(/augment\<bsol>.vscode-augment-(.+)$/)\<close>, with the default
      \<open>0.551.0\<close> without a match\<close>
  "versionOfDir extensionDirName =
     (case findFirst
             (\<lambda>s. if startsWith s ''augment.vscode-augment-''
                  then let r = drop (length ''augment.vscode-augment-'') s
                       in if r \<noteq> [] \<and> \<not> list_ex isLineTerminator r then Some r else None
                  else None)
             extensionDirName of
        Some v \<Rightarrow> v
      | None \<Rightarrow> ''0.551.0'')"

definition newExtensionEntry :: "string \<Rightarrow> int \<Rightarrow> string \<Rightarrow> json" where
  \<comment> \<open>\<open>newExtensionEntry\<close>, with \<open>os.userInfo().username\<close> and \<open>Date.now()\<close>\<close>
  "newExtensionEntry username now extensionDirName =
     JObject
       [(''identifier'',
         JObject [(''id'', JString ''augment.vscode-augment''),
                  (''uuid'', JString ''fc0e137d-e132-47ed-9455-c4636fa5b897'')]),
        (''version'', JString (versionOfDir extensionDirName)),
        (''location'',
         JObject [(''$mid'', JNumber 1),
                  (''path'', JString (''/c:/Users/'' @ username @ ''/.cursor/extensions/'' @
                                      extensionDirName)),
                  (''scheme'', JString ''file'')]),
        (''relativeLocation'', JString extensionDirName),
        (''metadata'',
         JObject [(''isApplicationScoped'', JBool False),
                  (''isMachineScoped'', JBool False),
                  (''isBuiltin'', JBool False),
                  (''installedTimestamp'', JNumber now),
                  (''pinned'', JBool False),
                  (''source'', JString ''gallery''),
                  (''id'', JString ''fc0e137d-e132-47ed-9455-c4636fa5b897''),
                  (''publisherId'', JString ''7814b14b-491a-4e83-83ac-9222fa835050''),
                  (''publisherDisplayName'', JString ''augment''),
                  (''targetPlatform'', JString ''undefined''),
                  (''updated'', JBool True),
                  (''private'', JBool False),
                  (''isPreReleaseVersion'', JBool True),
                  (''hasPreReleaseVersion'', JBool True),
                  (''preRelease'', JBool True)])]"

definition updateProfileExtensionsJson :: "string \<Rightarrow> int \<Rightarrow> string \<Rightarrow> string \<Rightarrow> fileStore \<Rightarrow> fileStore \<times> error option" where
  \<comment> \<open>\<open>IDEManager.updateProfileExtensionsJson\<close> for the profile at \<open>profilePath\<close>:
      the files afterwards, and the error that the \<open>catch\<close> logged. The writes are taken
      to succeed.\<close>
  "updateProfileExtensionsJson username now profilePath extensionDirName store =
     (case pathJoin [Some profilePath, Some ''extensions.json''] of
        Inl e \<Rightarrow> (store, Some e)
      | Inr extensionsJsonPath \<Rightarrow>
          (case store extensionsJsonPath of
             None \<Rightarrow> (store(extensionsJsonPath \<mapsto> JsonFile (JArray [])), None)
           | Some Unparsable \<Rightarrow> (store, Some ''Unexpected token in JSON'')
           | Some (JsonFile (JArray extensionsData)) \<Rightarrow>
               (case filterE keepEntry extensionsData of
                  Inl e \<Rightarrow> (store, Some e)
                | Inr filteredExtensions \<Rightarrow>
                    (store(extensionsJsonPath \<mapsto>
                       JsonFile (JArray (filteredExtensions @
                         [newExtensionEntry username now extensionDirName]))),
                     None))
           | Some (JsonFile other) \<Rightarrow> (store, Some ''extensionsData.filter is not a function'')))"

definition recordId :: "json \<Rightarrow> string option" where
  \<comment> \<open>The string \<open>identifier.id\<close> of a record of the registry, as the specification
      describes the records.\<close>
  "recordId e =
     (case e of
        JObject kvs \<Rightarrow>
          (case map_of kvs ''identifier'' of
             Some (JObject iv) \<Rightarrow>
               (case map_of iv ''id'' of Some (JString s) \<Rightarrow> Some s | other \<Rightarrow> None)
           | other \<Rightarrow> None)
      | other \<Rightarrow> None)"

definition registryOf :: "fileStore \<Rightarrow> string \<Rightarrow> json list" where
  \<comment> \<open>the records of the registry file of the profile at a path\<close>
  "registryOf store profilePath =
     (case store (profilePath @ ''/extensions.json'') of
        Some (JsonFile (JArray entries)) \<Rightarrow> entries
      | other \<Rightarrow> [])"

section \<open>IDEManager: the fanout to the Cursor profiles\<close>

record profile =
  pName :: string
  pPath :: string
  pHasAugment :: bool

record fanoutEnv =
  userName :: string
  clock :: int
  defaultExtensions :: dirRead
  copyError :: "string \<Rightarrow> error option"
  profiles :: "profile list"
  installCommand :: "nat \<Rightarrow> error option"

datatype event =
    DefaultDirMissing
  | NoExtensionDir
  | FoundExtension string
  | Copied string
  | CopyFailed string error
  | RegistryError string error
  | FanoutError error
  | NoProfiles
  | InstalledDefault
  | DefaultInstallFailed error
  | ProfilesError error
  | InstalledFallback

fun copyLoop :: "fanoutEnv \<Rightarrow> string \<Rightarrow> profile list \<Rightarrow> fileStore \<Rightarrow> fileStore \<times> event list" where
  \<comment> \<open>\<open>for (const profile of profiles)\<close> of \<open>copyExtensionToAllProfiles\<close>.
      \<open>copyError env name\<close> is the first exception of \<open>mkdirSync\<close>, \<open>rmSync\<close> or
      \<open>copyDirectory\<close> for the profile, caught by the \<open>catch\<close> of the loop body; the
      registry is updated after the copy, and its errors are logged inside
      \<open>updateProfileExtensionsJson\<close>.\<close>
  "copyLoop env dir [] store = (store, [])"
| "copyLoop env dir (p # ps) store =
     (case copyError env (pName p) of
        Some e \<Rightarrow>
          (case copyLoop env dir ps store of
             (store2, evs) \<Rightarrow> (store2, CopyFailed (pName p) e # evs))
      | None \<Rightarrow>
          (case updateProfileExtensionsJson (userName env) (clock env) (pPath p) dir store of
             (store1, err) \<Rightarrow>
               (case copyLoop env dir ps store1 of
                  (store2, evs) \<Rightarrow>
                    (store2,
                     (case err of None \<Rightarrow> [] | Some e \<Rightarrow> [RegistryError (pName p) e]) @
                     Copied (pName p) # evs))))"

definition copyExtensionToAllProfiles :: "fanoutEnv \<Rightarrow> profile list \<Rightarrow> fileStore \<Rightarrow> fileStore \<times> event list" where
  \<comment> \<open>\<open>IDEManager.copyExtensionToAllProfiles\<close>; it has no error result, its outer
      \<open>catch\<close> logs\<close>
  "copyExtensionToAllProfiles env ps store =
     (case defaultExtensions env of
        NoDir \<Rightarrow> (store, [DefaultDirMissing])
      | ReadError e \<Rightarrow> (store, [FanoutError e])
      | Listing entries \<Rightarrow>
          (case latestExtensionDir entries of
             None \<Rightarrow> (store, [NoExtensionDir])
           | Some dir \<Rightarrow>
               (case copyLoop env dir ps store of
                  (store1, evs) \<Rightarrow> (store1, FoundExtension dir # evs))))"

record installOutcome =
  thrown :: "error option"
  installCalls :: nat
  fanoutAttempted :: bool
  storeAfter :: fileStore
  events :: "event list"

definition fallbackInstall :: "fanoutEnv \<Rightarrow> error \<Rightarrow> event list \<Rightarrow> fileStore \<Rightarrow> installOutcome" where
  \<comment> \<open>the outer \<open>catch\<close> of \<open>installExtensionInAllCursorProfiles\<close>: the installation
      command is run once more, and its exception leaves the function\<close>
  "fallbackInstall env e evs store =
     (case installCommand env 2 of
        None \<Rightarrow> \<lparr>thrown = None, installCalls = 2, fanoutAttempted = False, storeAfter = store,
                  events = evs @ [ProfilesError e, InstalledFallback]\<rparr>
      | Some e2 \<Rightarrow> \<lparr>thrown = Some e2, installCalls = 2, fanoutAttempted = False,
                     storeAfter = store, events = evs @ [ProfilesError e]\<rparr>)"

definition installExtensionInAllCursorProfiles :: "fanoutEnv \<Rightarrow> fileStore \<Rightarrow> installOutcome" where
  \<comment> \<open>\<open>IDEManager.installExtensionInAllCursorProfiles\<close>; \<open>installCommand env k\<close> is the
      exception of the \<open>k\<close>-th run of the installation command, \<open>profiles env\<close> what
      \<open>getCursorProfiles\<close> returns\<close>
  "installExtensionInAllCursorProfiles env store =
     (if length (profiles env) = 0
      then (case installCommand env 1 of
              None \<Rightarrow> \<lparr>thrown = None, installCalls = 1, fanoutAttempted = False,
                        storeAfter = store, events = [NoProfiles, InstalledDefault]\<rparr>
            | Some e \<Rightarrow> fallbackInstall env e [NoProfiles] store)
      else (case installCommand env 1 of
              Some e \<Rightarrow> fallbackInstall env e [DefaultInstallFailed e] store
            | None \<Rightarrow>
                (case copyExtensionToAllProfiles env (profiles env) store of
                   (store1, evs) \<Rightarrow>
                     \<lparr>thrown = None, installCalls = 1, fanoutAttempted = True,
                      storeAfter = store1, events = InstalledDefault # evs\<rparr>)))"

fun outcomes :: "event list \<Rightarrow> (string \<times> bool) list" where
  \<comment> \<open>the outcome that the loop reports for each profile, in order: copied or failed\<close>
  "outcomes [] = []"
| "outcomes (Copied n # evs) = (n, True) # outcomes evs"
| "outcomes (CopyFailed n e # evs) = (n, False) # outcomes evs"
| "outcomes (ev # evs) = outcomes evs"

definition nightlyRecord :: json where
  \<comment> \<open>a record of another package whose identifier contains the one of the package\<close>
  "nightlyRecord =
     JObject [(''identifier'', JObject [(''id'', JString ''augment.vscode-augment-nightly'')]),
              (''version'', JString ''1.0.0'')]"

definition oldRecord :: json where
  "oldRecord =
     JObject [(''identifier'', JObject [(''id'', JString ''augment.vscode-augment'')]),
              (''version'', JString ''0.560.0'')]"

definition otherRecord :: json where
  "otherRecord =
     JObject [(''identifier'', JObject [(''id'', JString ''ms-python.python'')]),
              (''version'', JString ''2024.1.0'')]"

definition twoProfiles :: fileStore where
  \<comment> \<open>profile A holds a record of the package, profile B does not\<close>
  "twoProfiles =
     [''profiles/A/extensions.json'' \<mapsto> JsonFile (JArray [otherRecord, oldRecord]),
      ''profiles/B/extensions.json'' \<mapsto> JsonFile (JArray [otherRecord])]"

definition fanoutExample :: fanoutEnv where
  \<comment> \<open>two profiles; version 0.576.0 has just been installed next to 0.560.0; the first
      run of the installation command succeeds\<close>
  "fanoutExample =
     \<lparr>userName = ''dev'', clock = 1700000000000,
      defaultExtensions =
        Listing [''augment.vscode-augment-0.560.0'', ''augment.vscode-augment-0.576.0''],
      copyError = (\<lambda>n. None),
      profiles = [\<lparr>pName = ''A'', pPath = ''profiles/A'', pHasAugment = True\<rparr>,
                  \<lparr>pName = ''B'', pPath = ''profiles/B'', pHasAugment = False\<rparr>],
      installCommand = (\<lambda>k. None)\<rparr>"

section \<open>Auxiliary notions for the proofs\<close>






definition accepted :: "attempt \<Rightarrow> bool" where
  \<comment> \<open>the response of a download attempt is taken: status 2xx, a payload that is not empty,
      and the file written\<close>
  "accepted a \<longleftrightarrow>
     (case fetched a of
        FetchThrows e \<Rightarrow> False
      | Response status body \<Rightarrow>
          responseOk status \<and>
          (case body of Inl e \<Rightarrow> False | Inr buffer \<Rightarrow> buffer \<noteq> [] \<and> writeError a = None))"

definition attemptError :: "attempt \<Rightarrow> error" where
  \<comment> \<open>the error of a download attempt that is not accepted\<close>
  "attemptError a =
     (case fetched a of
        FetchThrows e \<Rightarrow> e
      | Response status body \<Rightarrow>
          if \<not> responseOk status then ''Download failed with status: '' @ showNat status
          else (case body of
                  Inl e \<Rightarrow> e
                | Inr buffer \<Rightarrow>
                    if buffer = [] then ''Downloaded file is empty''
                    else (case writeError a of Some e \<Rightarrow> e | None \<Rightarrow> [])))"

definition contribution :: "error + detectedIDE option \<Rightarrow> detectedIDE list" where
  \<comment> \<open>what the detection of one target adds to the list \<open>available\<close>\<close>
  "contribution r = (case r of Inl e \<Rightarrow> [] | Inr None \<Rightarrow> [] | Inr (Some d) \<Rightarrow> [d])"

section \<open>Properties of the decimal notation and of the semver model\<close>

lemma digit_cases: "d < 10 \<Longrightarrow> d \<in> {0, 1, 2, 3, 4, 5, 6, 7, 8, 9::nat}"
  by auto

lemma digitChar_simps:
  "digitChar 0 = CHR ''0''" "digitChar (Suc 0) = CHR ''1''" "digitChar 2 = CHR ''2''"
  "digitChar 3 = CHR ''3''" "digitChar 4 = CHR ''4''" "digitChar 5 = CHR ''5''"
  "digitChar 6 = CHR ''6''" "digitChar 7 = CHR ''7''" "digitChar 8 = CHR ''8''"
  "digitChar 9 = CHR ''9''"
  by code_simp+

lemma isDigit_digitChar: "d < 10 \<Longrightarrow> isDigit (digitChar d)"
  using digit_cases [of d] by (auto simp: isDigit_def digitChar_simps)

lemma digitVal_digitChar: "d < 10 \<Longrightarrow> digitVal (digitChar d) = d"
  by (simp add: digitVal_def digitChar_def)

lemma digitChar_zero: "d < 10 \<Longrightarrow> digitChar d = CHR ''0'' \<longleftrightarrow> d = 0"
  using digit_cases [of d] by (auto simp: digitChar_simps)

lemma not_isSpace_digit: "isDigit c \<Longrightarrow> \<not> isSpace c"
  by (auto simp: isDigit_def isSpace_def)

lemma not_digit_dot: "\<not> isDigit CHR ''.''"
  by (simp add: isDigit_def)

lemma digit_not_v: "isDigit c \<Longrightarrow> c \<noteq> CHR ''v''"
  by (auto simp: isDigit_def)

lemma showNat_nonempty: "showNat n \<noteq> []"
  by (subst showNat.simps) simp

lemma showNat_digits: "list_all isDigit (showNat n)"
proof (induction n rule: showNat.induct)
  case (1 n)
  show ?case
  proof (cases "n < 10")
    case True
    then show ?thesis by (subst showNat.simps) (simp add: isDigit_digitChar)
  next
    case False
    then show ?thesis using 1 by (subst showNat.simps) (simp add: isDigit_digitChar)
  qed
qed

lemma toNumber_snoc: "toNumber (xs @ [c]) = 10 * toNumber xs + digitVal c"
  by (simp add: toNumber_def)

lemma toNumber_showNat: "toNumber (showNat n) = n"
proof (induction n rule: showNat.induct)
  case (1 n)
  show ?case
  proof (cases "n < 10")
    case True
    then show ?thesis
      by (subst showNat.simps) (simp add: toNumber_def digitVal_digitChar)
  next
    case False
    then have "toNumber (showNat (n div 10)) = n div 10" using 1 by simp
    then show ?thesis using False
      by (subst showNat.simps) (simp add: toNumber_snoc digitVal_digitChar)
  qed
qed

lemma showNat_hd: "0 < n \<Longrightarrow> hd (showNat n) \<noteq> CHR ''0''"
proof (induction n rule: showNat.induct)
  case (1 n)
  show ?case
  proof (cases "n < 10")
    case True
    then show ?thesis using "1.prems"
      by (subst showNat.simps) (simp add: digitChar_zero)
  next
    case False
    then have "hd (showNat (n div 10)) \<noteq> CHR ''0''" using 1 by simp
    then show ?thesis using False
      by (subst showNat.simps) (simp add: showNat_nonempty)
  qed
qed

lemma showNat_zero: "showNat 0 = ''0''"
  by (subst showNat.simps) (simp add: digitChar_simps)

lemma numericIdentifier_showNat: "numericIdentifier (showNat n)"
proof (cases "n = 0")
  case True
  then show ?thesis by (simp add: numericIdentifier_def showNat_zero)
next
  case False
  then show ?thesis
    by (simp add: numericIdentifier_def showNat_nonempty showNat_digits showNat_hd)
qed

lemma showNat_length: "0 < k \<Longrightarrow> n < 10 ^ k \<Longrightarrow> length (showNat n) \<le> k"
proof (induction n arbitrary: k rule: showNat.induct)
  case (1 n)
  show ?case
  proof (cases "n < 10")
    case True
    then show ?thesis using "1.prems" by (subst showNat.simps) simp
  next
    case False
    obtain j where k: "k = Suc j" using "1.prems"(1) by (cases k) auto
    have "0 < j"
    proof (rule ccontr)
      assume "\<not> 0 < j"
      then have "k = 1" using k by simp
      then show False using "1.prems"(2) False by simp
    qed
    moreover have "n div 10 < 10 ^ j" using "1.prems"(2) k
      by (simp add: less_mult_imp_div_less mult.commute)
    ultimately have "length (showNat (n div 10)) \<le> j" using 1 False by simp
    then show ?thesis using False k by (subst showNat.simps) simp
  qed
qed

lemma showNat_length_safe:
  "n \<le> MAX_SAFE_INTEGER \<Longrightarrow> length (showNat n) \<le> MAX_SAFE_COMPONENT_LENGTH"
  unfolding MAX_SAFE_INTEGER_def MAX_SAFE_COMPONENT_LENGTH_def
  by (rule showNat_length) simp_all


lemma dropWhile_hd: "xs \<noteq> [] \<Longrightarrow> \<not> P (hd xs) \<Longrightarrow> dropWhile P xs = xs"
  by (cases xs) auto

lemma trim_id: "s \<noteq> [] \<Longrightarrow> \<not> isSpace (hd s) \<Longrightarrow> \<not> isSpace (last s) \<Longrightarrow> trim s = s"
proof -
  assume a: "s \<noteq> []" "\<not> isSpace (hd s)" "\<not> isSpace (last s)"
  have 1: "dropWhile isSpace s = s" using a by (cases s) auto
  have "hd (rev s) = last s" using a by (simp add: hd_rev)
  then have 2: "dropWhile isSpace (rev s) = rev s"
    using a dropWhile_hd [of "rev s" isSpace] by simp
  show ?thesis by (simp add: trim_def 1 2)
qed

lemma takeWhile_digits:
  "list_all isDigit a \<Longrightarrow> takeWhile isDigit (a @ CHR ''.'' # r) = a"
  by (induction a) (auto simp: not_digit_dot)

lemma dropWhile_digits:
  "list_all isDigit a \<Longrightarrow> dropWhile isDigit (a @ CHR ''.'' # r) = CHR ''.'' # r"
  by (induction a) (auto simp: not_digit_dot)

lemma takeWhile_all_digits: "list_all isDigit a \<Longrightarrow> takeWhile isDigit a = a"
  by (induction a) auto

lemma dropWhile_all_digits: "list_all isDigit a \<Longrightarrow> dropWhile isDigit a = []"
  by (induction a) auto

lemma parseTail_Nil: "parseTail [] = Some ([], [])"
  by (simp add: parseTail_def parsePrerelease_def parseBuild_def)

lemma stripV_digits: "list_all isDigit a \<Longrightarrow> a \<noteq> [] \<Longrightarrow> stripV (a @ r) = a @ r"
  by (cases a) (auto simp: stripV_def digit_not_v)

lemma parse_digits:
  assumes a: "list_all isDigit a" "a \<noteq> []"
    and b: "list_all isDigit b" "b \<noteq> []"
    and c: "list_all isDigit c" "c \<noteq> []"
    and len: "length (a @ ''.'' @ b @ ''.'' @ c) \<le> MAX_LENGTH"
  shows "parse (a @ ''.'' @ b @ ''.'' @ c) =
     (if numericIdentifier a \<and> numericIdentifier b \<and> numericIdentifier c \<and>
         toNumber a \<le> MAX_SAFE_INTEGER \<and> toNumber b \<le> MAX_SAFE_INTEGER \<and>
         toNumber c \<le> MAX_SAFE_INTEGER
      then Some \<lparr>major = toNumber a, minor = toNumber b, patch = toNumber c,
                 prerelease = [], build = []\<rparr>
      else None)"
proof -
  let ?s = "a @ ''.'' @ b @ ''.'' @ c"
  have hd: "\<not> isSpace (hd ?s)" using a by (cases a) (auto simp: not_isSpace_digit)
  have "last ?s = last c" using c by simp
  moreover have "isDigit (last c)" using c by (metis last_in_set list_all_iff)
  ultimately have lst: "\<not> isSpace (last ?s)" by (simp add: not_isSpace_digit)
  have t: "trim ?s = ?s" using hd lst by (intro trim_id) simp_all
  have sv: "stripV ?s = ?s" using a by (rule stripV_digits)
  have ta: "takeWhile isDigit ?s = a" using a by (simp add: takeWhile_digits)
  have da: "dropWhile isDigit ?s = CHR ''.'' # b @ ''.'' @ c" using a by (simp add: dropWhile_digits)
  have tb: "takeWhile isDigit (b @ ''.'' @ c) = b" using b by (simp add: takeWhile_digits)
  have db: "dropWhile isDigit (b @ ''.'' @ c) = CHR ''.'' # c" using b by (simp add: dropWhile_digits)
  have tc: "takeWhile isDigit c = c" using c by (simp add: takeWhile_all_digits)
  have dc: "dropWhile isDigit c = []" using c by (simp add: dropWhile_all_digits)
  have "\<not> length ?s > MAX_LENGTH" using len by simp
  then show ?thesis
    unfolding parse_def t sv
    by (simp only: Let_def ta da tb db tc dc list.sel if_False)
       (auto simp: startsWith_def parseTail_Nil)
qed

lemma coerceFind_digits:
  assumes "list_all isDigit a" "a \<noteq> []" "length a \<le> MAX_SAFE_COMPONENT_LENGTH"
    and "r = [] \<or> \<not> isDigit (hd r)"
  shows "coerceFind (a @ r) = Some (a, r)"
proof -
  obtain d ds where ad: "a = d # ds" using assms(2) by (cases a) auto
  have d: "isDigit d" using assms(1) ad by simp
  have 1: "dropWhile (\<lambda>c. \<not> isDigit c) (a @ r) = d # ds @ r" using ad d by simp
  have 2: "takeWhile isDigit (d # ds @ r) = a"
    using assms(1,4) ad by (cases r) (auto simp: takeWhile_append2 list_all_iff takeWhile_all_digits)
  have 3: "dropWhile isDigit (d # ds @ r) = r"
    using assms(1,4) ad by (cases r) (auto simp: dropWhile_append2 list_all_iff dropWhile_all_digits)
  show ?thesis
    by (subst coerceFind.simps) (simp only: 1 2 3 list.case assms(3) if_True)
qed

lemma coerceComponent_digits:
  assumes "list_all isDigit a" "a \<noteq> []" "length a \<le> MAX_SAFE_COMPONENT_LENGTH"
    and "r = [] \<or> \<not> isDigit (hd r)"
  shows "coerceComponent (CHR ''.'' # a @ r) = Some (a, r)"
proof -
  have 2: "takeWhile isDigit (a @ r) = a"
    using assms(1,4) by (cases r) (auto simp: takeWhile_append2 list_all_iff takeWhile_all_digits)
  have 3: "dropWhile isDigit (a @ r) = r"
    using assms(1,4) by (cases r) (auto simp: dropWhile_append2 list_all_iff dropWhile_all_digits)
  show ?thesis using assms(2,3) by (simp add: coerceComponent_def 2 3)
qed


lemma coerceFind_shape:
  "coerceFind s = Some (a, r) \<Longrightarrow>
     list_all isDigit a \<and> a \<noteq> [] \<and> length a \<le> MAX_SAFE_COMPONENT_LENGTH"
proof (induction s rule: coerceFind.induct)
  case (1 s)
  show ?case
  proof (cases "dropWhile (\<lambda>c. \<not> isDigit c) s")
    case Nil
    have "coerceFind s = None"
      by (subst coerceFind.simps) (simp only: Nil list.case)
    then show ?thesis using "1.prems" by simp
  next
    case (Cons d ds)
    then have d: "isDigit d" by (metis dropWhile_eq_Cons_conv)
    show ?thesis
    proof (cases "length (takeWhile isDigit (d # ds)) \<le> MAX_SAFE_COMPONENT_LENGTH")
      case True
      have "coerceFind s = Some (takeWhile isDigit (d # ds), dropWhile isDigit (d # ds))"
        by (subst coerceFind.simps) (simp only: Cons list.case True if_True)
      then have "a = takeWhile isDigit (d # ds)" using "1.prems" by simp
      then show ?thesis using True d
        by (auto simp: list_all_iff dest: set_takeWhileD)
    next
      case False
      have "coerceFind s = coerceFind (dropWhile isDigit (d # ds))"
        by (subst coerceFind.simps) (simp only: Cons list.case False if_False)
      then have "coerceFind (dropWhile isDigit (d # ds)) = Some (a, r)"
        using "1.prems" by simp
      then show ?thesis using "1.IH" [OF Cons False] by simp
    qed
  qed
qed

lemma coerceComponent_shape:
  "coerceComponent s = Some (a, r) \<Longrightarrow>
     list_all isDigit a \<and> a \<noteq> [] \<and> length a \<le> MAX_SAFE_COMPONENT_LENGTH"
  by (cases s) (auto simp: coerceComponent_def list_all_iff split: if_splits dest: set_takeWhileD)

lemma zero_digits: "list_all isDigit ''0''" "length ''0'' \<le> MAX_SAFE_COMPONENT_LENGTH"
  by (simp_all add: isDigit_def MAX_SAFE_COMPONENT_LENGTH_def)

lemma parse_components:
  assumes a: "list_all isDigit a" "a \<noteq> []" "length a \<le> MAX_SAFE_COMPONENT_LENGTH"
    and b: "list_all isDigit b" "b \<noteq> []" "length b \<le> MAX_SAFE_COMPONENT_LENGTH"
    and c: "list_all isDigit c" "c \<noteq> []" "length c \<le> MAX_SAFE_COMPONENT_LENGTH"
    and p: "parse (a @ ''.'' @ b @ ''.'' @ c) = Some v"
  shows "prerelease v = [] \<and> build v = [] \<and> major v \<le> MAX_SAFE_INTEGER \<and>
         minor v \<le> MAX_SAFE_INTEGER \<and> patch v \<le> MAX_SAFE_INTEGER"
proof -
  have "length (a @ ''.'' @ b @ ''.'' @ c) \<le> MAX_LENGTH"
    using a(3) b(3) c(3) by (simp add: MAX_SAFE_COMPONENT_LENGTH_def MAX_LENGTH_def)
  then show ?thesis
    using p parse_digits [OF a(1,2) b(1,2) c(1,2)] by (auto split: if_splits)
qed

lemma coerce_shape:
  assumes "coerce s = Some v"
  shows "prerelease v = [] \<and> build v = [] \<and> major v \<le> MAX_SAFE_INTEGER \<and>
         minor v \<le> MAX_SAFE_INTEGER \<and> patch v \<le> MAX_SAFE_INTEGER"
proof -
  obtain mj r1 where f: "coerceFind s = Some (mj, r1)"
    using assms by (auto simp: coerce_def split: option.splits)
  note A = coerceFind_shape [OF f]
  show ?thesis
  proof (cases "coerceComponent r1")
    case None
    then have "parse (mj @ ''.'' @ ''0'' @ ''.'' @ ''0'') = Some v"
      using assms f by (simp add: coerce_def)
    then show ?thesis using A zero_digits
      by - (rule parse_components [where a = mj and b = "''0''" and c = "''0''"], simp_all)
  next
    case (Some mr)
    obtain mn r2 where mr: "mr = (mn, r2)" by (cases mr)
    note B = coerceComponent_shape [OF Some [unfolded mr]]
    show ?thesis
    proof (cases "coerceComponent r2")
      case None
      then have "parse (mj @ ''.'' @ mn @ ''.'' @ ''0'') = Some v"
        using assms f Some mr by (simp add: coerce_def)
      then show ?thesis using A B zero_digits
        by - (rule parse_components [where a = mj and b = mn and c = "''0''"], simp_all)
    next
      case (Some pr)
      obtain pt r3 where pr: "pr = (pt, r3)" by (cases pr)
      note C = coerceComponent_shape [OF Some [unfolded pr]]
      have "parse (mj @ ''.'' @ mn @ ''.'' @ pt) = Some v"
        using assms f \<open>coerceComponent r1 = Some mr\<close> mr Some pr by (simp add: coerce_def)
      then show ?thesis using A B C
        by - (rule parse_components [where a = mj and b = mn and c = pt], simp_all)
    qed
  qed
qed

lemma format_release:
  "prerelease v = [] \<Longrightarrow>
     format v = showNat (major v) @ ''.'' @ showNat (minor v) @ ''.'' @ showNat (patch v)"
  by (simp add: format_def)

lemma coerce_canonical:
  assumes "M \<le> MAX_SAFE_INTEGER" "m \<le> MAX_SAFE_INTEGER" "p \<le> MAX_SAFE_INTEGER"
  shows "coerce (showNat M @ ''.'' @ showNat m @ ''.'' @ showNat p) =
         Some \<lparr>major = M, minor = m, patch = p, prerelease = [], build = []\<rparr>"
proof -
  note dM = showNat_digits [of M] showNat_nonempty [of M] showNat_length_safe [OF assms(1)]
  note dm = showNat_digits [of m] showNat_nonempty [of m] showNat_length_safe [OF assms(2)]
  note dp = showNat_digits [of p] showNat_nonempty [of p] showNat_length_safe [OF assms(3)]
  have 1: "coerceFind (showNat M @ ''.'' @ showNat m @ ''.'' @ showNat p) =
           Some (showNat M, ''.'' @ showNat m @ ''.'' @ showNat p)"
    using dM by (intro coerceFind_digits) (simp_all add: not_digit_dot)
  have 2: "coerceComponent (''.'' @ showNat m @ ''.'' @ showNat p) =
           Some (showNat m, ''.'' @ showNat p)"
    using coerceComponent_digits [OF dm, of "''.'' @ showNat p"] by (simp add: not_digit_dot)
  have 3: "coerceComponent (''.'' @ showNat p) = Some (showNat p, [])"
    using coerceComponent_digits [OF dp, of "[]"] by simp
  have len: "length (showNat M @ ''.'' @ showNat m @ ''.'' @ showNat p) \<le> MAX_LENGTH"
    using dM(3) dm(3) dp(3) by (simp add: MAX_SAFE_COMPONENT_LENGTH_def MAX_LENGTH_def)
  have 4: "parse (showNat M @ ''.'' @ showNat m @ ''.'' @ showNat p) =
           Some \<lparr>major = M, minor = m, patch = p, prerelease = [], build = []\<rparr>"
    using parse_digits [OF dM(1,2) dm(1,2) dp(1,2) len] assms
    by (simp add: numericIdentifier_showNat toNumber_showNat)
  show ?thesis unfolding coerce_def by (simp only: 1 2 3 4 option.case prod.case)
qed

lemma normalizeVersion_fixed:
  assumes "normalizeVersion (Some v) = Some n"
  shows "normalizeVersion (Some n) = Some n"
proof -
  obtain c where c: "coerce v = Some c" and n: "n = format c"
    using assms by (auto simp: normalizeVersion_def split: if_splits option.splits)
  note S = coerce_shape [OF c]
  have f: "format c = showNat (major c) @ ''.'' @ showNat (minor c) @ ''.'' @ showNat (patch c)"
    using S by (simp add: format_release)
  have "coerce (format c) =
        Some \<lparr>major = major c, minor = minor c, patch = patch c, prerelease = [], build = []\<rparr>"
    unfolding f using S by (intro coerce_canonical) simp_all
  moreover have "format \<lparr>major = major c, minor = minor c, patch = patch c,
                         prerelease = [], build = []\<rparr> = format c"
    using S by (simp add: format_def)
  moreover have "format c \<noteq> []" unfolding f by (simp add: showNat_nonempty)
  ultimately show ?thesis by (simp add: normalizeVersion_def n)
qed

section \<open>Properties of the sort and of the directory choice\<close>

lemma insertBy_total:
  assumes "\<forall>y\<in>set ys. \<exists>r. cmp x y = Inr r"
  shows "\<exists>zs. insertBy cmp x ys = Inr zs \<and> set zs = insert x (set ys)"
  using assms
proof (induction ys)
  case Nil
  then show ?case by simp
next
  case (Cons y ys)
  then obtain r where r: "cmp x y = Inr r" by auto
  obtain zs where zs: "insertBy cmp x ys = Inr zs" "set zs = insert x (set ys)"
    using Cons by auto
  show ?case using r zs by auto
qed

lemma sortBy_total:
  assumes "\<forall>x\<in>set xs. \<forall>y\<in>set xs. \<exists>r. cmp x y = Inr r"
  shows "\<exists>zs. sortBy cmp xs = Inr zs \<and> set zs = set xs"
  using assms
proof (induction xs)
  case Nil
  then show ?case by simp
next
  case (Cons x xs)
  then obtain ys where ys: "sortBy cmp xs = Inr ys" "set ys = set xs" by auto
  have "\<forall>y\<in>set ys. \<exists>r. cmp x y = Inr r" using Cons.prems ys by simp
  then obtain zs where "insertBy cmp x ys = Inr zs" "set zs = insert x (set ys)"
    using insertBy_total [of ys cmp x] by blast
  then show ?case using ys by auto
qed

lemma insertBy_sorted:
  assumes "insertBy cmp x ys = Inr zs"
    and "sorted_wrt R ys"
    and "\<And>y r. y \<in> set ys \<Longrightarrow> cmp x y = Inr r \<Longrightarrow> (r \<le> 0 \<longrightarrow> R x y) \<and> (\<not> r \<le> 0 \<longrightarrow> R y x)"
    and "\<And>a b c. R a b \<Longrightarrow> R b c \<Longrightarrow> R a c"
  shows "sorted_wrt R zs \<and> set zs = insert x (set ys)"
  using assms(1,2,3)
proof (induction ys arbitrary: zs)
  case Nil
  then show ?case by auto
next
  case (Cons y ys)
  show ?case
  proof (cases "cmp x y")
    case (Inl e)
    then show ?thesis using Cons.prems(1) by simp
  next
    case (Inr r)
    show ?thesis
    proof (cases "r \<le> 0")
      case True
      then have zs: "zs = x # y # ys" using Cons.prems(1) Inr by simp
      have xy: "R x y" using Cons.prems(3) [of y r] Inr True by simp
      have "\<forall>z\<in>set ys. R x z" using xy Cons.prems(2) assms(4) by auto
      then show ?thesis using zs xy Cons.prems(2) by auto
    next
      case False
      then obtain ws where ws: "insertBy cmp x ys = Inr ws" "zs = y # ws"
        using Cons.prems(1) Inr by (auto split: sum.splits)
      have yx: "R y x" using Cons.prems(3) [of y r] Inr False by simp
      have "sorted_wrt R ws \<and> set ws = insert x (set ys)"
        using Cons.IH [OF ws(1)] Cons.prems(2,3) by auto
      then show ?thesis using ws(2) yx Cons.prems(2) by auto
    qed
  qed
qed

lemma sortBy_sorted:
  assumes "sortBy cmp xs = Inr zs"
    and "\<And>x y r. x \<in> set xs \<Longrightarrow> y \<in> set xs \<Longrightarrow> cmp x y = Inr r \<Longrightarrow>
           (r \<le> 0 \<longrightarrow> R x y) \<and> (\<not> r \<le> 0 \<longrightarrow> R y x)"
    and "\<And>a b c. R a b \<Longrightarrow> R b c \<Longrightarrow> R a c"
  shows "sorted_wrt R zs \<and> set zs = set xs"
  using assms(1,2)
proof (induction xs arbitrary: zs)
  case Nil
  then show ?case by simp
next
  case (Cons x xs)
  then obtain ys where ys: "sortBy cmp xs = Inr ys" "insertBy cmp x ys = Inr zs"
    by (auto split: sum.splits)
  have IH: "sorted_wrt R ys \<and> set ys = set xs"
    using Cons.IH [OF ys(1)] Cons.prems(2) by auto
  have "sorted_wrt R zs \<and> set zs = insert x (set ys)"
  proof (rule insertBy_sorted [OF ys(2)])
    show "sorted_wrt R ys" using IH by simp
    show "\<And>y r. y \<in> set ys \<Longrightarrow> cmp x y = Inr r \<Longrightarrow> (r \<le> 0 \<longrightarrow> R x y) \<and> (\<not> r \<le> 0 \<longrightarrow> R y x)"
      using Cons.prems(2) IH by auto
    show "\<And>a b c. R a b \<Longrightarrow> R b c \<Longrightarrow> R a c" by (rule assms(3))
  qed
  then show ?case using IH by simp
qed

lemma sorted_wrt_last:
  "sorted_wrt R zs \<Longrightarrow> x \<in> set zs \<Longrightarrow> x \<noteq> last zs \<Longrightarrow> R x (last zs)"
proof (induction zs)
  case Nil
  then show ?case by simp
next
  case (Cons z zs)
  then show ?case by (cases "zs = []") auto
qed

lemma startsWith_append: "startsWith (p @ s) p"
  by (simp add: startsWith_def)

lemma startsWith_drop: "startsWith s p \<Longrightarrow> p @ drop (length p) s = s"
  by (metis append_take_drop_id startsWith_def)

lemma latestExtensionDir_greatest:
  assumes "latestExtensionDir entries = Some d"
  shows "d \<in> set entries \<and> startsWith d ''augment.vscode-augment-'' \<and>
         (\<forall>e\<in>set entries. startsWith e ''augment.vscode-augment-'' \<longrightarrow> e \<le> d)"
proof -
  let ?ds = "filter (\<lambda>dir. startsWith dir ''augment.vscode-augment-'') entries"
  have u: "latestExtensionDir entries =
      (if length ?ds = 0 then None
       else (case sortBy defaultCompare ?ds of
               Inl e \<Rightarrow> None
             | Inr sortedDirs \<Rightarrow> (case rev sortedDirs of [] \<Rightarrow> None | d # ds \<Rightarrow> Some d)))"
    unfolding latestExtensionDir_def Let_def ..
  obtain zs where zs: "sortBy defaultCompare ?ds = Inr zs"
    using assms unfolding u by (cases "sortBy defaultCompare ?ds") (simp_all split: if_splits)
  have d: "rev zs \<noteq> [] \<and> d = hd (rev zs)"
    using assms unfolding u zs by (cases "rev zs") (simp_all split: if_splits)
  have S: "sorted_wrt (\<le>) zs \<and> set zs = set ?ds"
  proof (rule sortBy_sorted [OF zs, where R = "(\<le>)"])
    show "\<And>x y r. defaultCompare x y = Inr r \<Longrightarrow> (r \<le> 0 \<longrightarrow> x \<le> y) \<and> (\<not> r \<le> 0 \<longrightarrow> y \<le> x)"
      by (auto simp: defaultCompare_def split: if_splits)
    show "\<And>a b c :: string. a \<le> b \<Longrightarrow> b \<le> c \<Longrightarrow> a \<le> c" by simp
  qed
  have dl: "d = last zs" using d by (simp add: hd_rev)
  have "zs \<noteq> []" using d by simp
  then have "d \<in> set zs" unfolding dl by (rule last_in_set)
  then have "d \<in> set ?ds" using S by simp
  moreover have "\<forall>e\<in>set ?ds. e \<le> d"
  proof
    fix e assume "e \<in> set ?ds"
    then show "e \<le> d" using sorted_wrt_last [of "(\<le>)" zs e] S dl by auto
  qed
  ultimately show ?thesis by simp
qed

lemma latestExtensionDir_exists:
  assumes "e \<in> set entries" "startsWith e ''augment.vscode-augment-''"
  shows "\<exists>d. latestExtensionDir entries = Some d"
proof -
  let ?ds = "filter (\<lambda>dir. startsWith dir ''augment.vscode-augment-'') entries"
  have ne: "?ds \<noteq> []" using assms by (auto simp: filter_empty_conv)
  obtain zs where zs: "sortBy defaultCompare ?ds = Inr zs" "set zs = set ?ds"
    using sortBy_total [of ?ds defaultCompare] by (auto simp: defaultCompare_def)
  then have "zs \<noteq> []" using ne by auto
  then obtain y ys where "rev zs = y # ys" by (cases "rev zs") auto
  then show ?thesis using ne zs unfolding latestExtensionDir_def Let_def by simp
qed

section \<open>The version order of semver\<close>

lemma compareIdentifiers_refl: "compareIdentifiers a a = 0"
  by (cases a) (simp_all add: compareIdentifiers_def)























































section \<open>Properties of the download and of the run\<close>

lemma tryDownload_live:
  "\<not> isDryRun env \<Longrightarrow>
   tryDownload env v n st =
     (if accepted (download env n)
      then (Inr (vsixFile env v),
            st\<lparr>fetches := fetches st + 1, files := insert (vsixFile env v) (files st)\<rparr>)
      else (Inl (attemptError (download env n)), st\<lparr>fetches := fetches st + 1\<rparr>))"
  by (auto simp: tryDownload_def accepted_def attemptError_def Let_def
      split: fetchResult.splits sum.splits option.splits)

lemma tryDownload_dry: "isDryRun env \<Longrightarrow> tryDownload env v n st = (Inr (vsixFile env v), st)"
  by (simp add: tryDownload_def)

lemma attempts_list: "[1..<maxRetries + 1] = [1, 2, 3]"
  by (simp add: maxRetries_def upt_rec)

lemma downloadVsix_dry: "isDryRun env \<Longrightarrow> downloadVsix env v st = (Inr (vsixFile env v), st)"
  unfolding downloadVsix_def attempts_list by (simp add: tryDownload_dry)

lemma downloadVsix_live:
  assumes "\<not> isDryRun env"
  shows "downloadVsix env v st =
     (if accepted (download env 1)
      then (Inr (vsixFile env v),
            st\<lparr>fetches := fetches st + 1, files := insert (vsixFile env v) (files st)\<rparr>)
      else if accepted (download env 2)
      then (Inr (vsixFile env v),
            st\<lparr>fetches := fetches st + 2, delays := delays st @ [2000],
               files := insert (vsixFile env v) (files st)\<rparr>)
      else if accepted (download env 3)
      then (Inr (vsixFile env v),
            st\<lparr>fetches := fetches st + 3, delays := delays st @ [2000, 4000],
               files := insert (vsixFile env v) (files st)\<rparr>)
      else (Inl (''Download failed after '' @ showNat maxRetries @ '' attempts. Last error: '' @
                 attemptError (download env 3)),
            st\<lparr>fetches := fetches st + 3, delays := delays st @ [2000, 4000]\<rparr>))"
  unfolding downloadVsix_def attempts_list
  by (simp add: tryDownload_live [OF assms] maxRetries_def)


lemma downloadVsix_fetches:
  "fetches (snd (downloadVsix env v st)) \<le> fetches st + 3"
  by (cases "isDryRun env") (simp_all add: downloadVsix_dry downloadVsix_live)

lemma downloadVsix_delays:
  "delays (snd (downloadVsix env v st)) =
     delays st @ map (\<lambda>k. 2000 * k) [1..<fetches (snd (downloadVsix env v st)) - fetches st]"
  by (cases "isDryRun env") (simp_all add: downloadVsix_dry downloadVsix_live upt_rec)

lemma downloadVsix_success:
  assumes "\<not> isDryRun env" "fst (downloadVsix env v st) = Inr p"
  shows "\<exists>status buffer.
           fetched (download env (fetches (snd (downloadVsix env v st)) - fetches st)) =
             Response status (Inr buffer) \<and>
           responseOk status \<and> buffer \<noteq> [] \<and> p \<in> files (snd (downloadVsix env v st))"
proof -
  have acc: "accepted a \<Longrightarrow>
      \<exists>status buffer. fetched a = Response status (Inr buffer) \<and> responseOk status \<and> buffer \<noteq> []"
    for a
    by (auto simp: accepted_def split: fetchResult.splits sum.splits)
  show ?thesis
    using assms(2) acc [of "download env 1"] acc [of "download env 2"] acc [of "download env 3"]
    by (auto simp: downloadVsix_live [OF assms(1)] split: if_splits)
qed

lemma downloadVsix_third:
  assumes "\<not> isDryRun env" "\<not> accepted (download env 1)" "\<not> accepted (download env 2)"
  shows "fetches (snd (downloadVsix env v st)) = fetches st + 3 \<and>
         delays (snd (downloadVsix env v st)) = delays st @ [2000 * 1, 2000 * 2]"
  using assms by (simp add: downloadVsix_live)

lemma downloadVsix_exhausted:
  assumes "\<not> isDryRun env" "\<not> accepted (download env 1)" "\<not> accepted (download env 2)"
    "\<not> accepted (download env 3)"
  shows "\<exists>e. fst (downloadVsix env v st) = Inl e"
  using assms by (simp add: downloadVsix_live)

lemma performUpdate_fatal:
  assumes "fst (downloadVsix env v st) = Inl e"
  shows "exitCode (performUpdate env targets v st) = 1 \<and>
         summary (performUpdate env targets v st) = [] \<and>
         vsixPath (performUpdate env targets v st) = None"
  using assms by (cases "downloadVsix env v st") (auto simp: performUpdate_def)

lemma accepted_response:
  "accepted a \<Longrightarrow>
     \<exists>status buffer. fetched a = Response status (Inr buffer) \<and> responseOk status \<and> buffer \<noteq> []"
  by (auto simp: accepted_def split: fetchResult.splits sum.splits)

lemma cleanupFile_removes:
  "\<not> isDryRun env \<Longrightarrow> unlinkError env = None \<Longrightarrow> p \<notin> files (cleanupFile env p st)"
  by (simp add: cleanupFile_def)

lemma performUpdate_cleanup:
  assumes "\<not> isDryRun env" "unlinkError env = None"
    and "vsixPath (performUpdate env targets v st) = Some p"
  shows "p \<notin> files (finalState (performUpdate env targets v st))"
proof (cases "downloadVsix env v st")
  case (Pair r st1)
  show ?thesis
  proof (cases r)
    case (Inl e)
    then show ?thesis using assms(3) Pair by (simp add: performUpdate_def)
  next
    case (Inr q)
    obtain vr st2 where v: "verifyInstallations env
        (map fst (filter (\<lambda>r. snd r = None) (installExtensions env targets))) v st1 = (vr, st2)"
      by (cases "verifyInstallations env
        (map fst (filter (\<lambda>r. snd r = None) (installExtensions env targets))) v st1")
    have "p = q" using assms(3) Pair Inr v by (simp add: performUpdate_def Let_def)
    then show ?thesis using Pair Inr v cleanupFile_removes [OF assms(1,2)]
      by (simp add: performUpdate_def Let_def)
  qed
qed

section \<open>Properties of the detection\<close>

lemma detectLoop_Cons: "detectLoop env (t # ts) = contribution (detectTarget env t) @ detectLoop env ts"
  by (simp add: contribution_def split: sum.splits option.splits)

lemma detectLoop_append: "detectLoop env (ts1 @ ts2) = detectLoop env ts1 @ detectLoop env ts2"
  by (induction ts1) (simp_all add: detectLoop_Cons del: detectLoop.simps(2))

lemma detectLoopModule_Cons:
  "detectLoopModule env (t # ts) = contribution (detectTargetModule env t) @ detectLoopModule env ts"
  by (simp add: contribution_def split: sum.splits option.splits)

lemma detectLoopModule_append:
  "detectLoopModule env (ts1 @ ts2) = detectLoopModule env ts1 @ detectLoopModule env ts2"
  by (induction ts1) (simp_all add: detectLoopModule_Cons del: detectLoopModule.simps(2))

lemma sortBy_byPriority: "\<exists>zs. sortBy byPriority xs = Inr zs \<and> set zs = set xs"
  by (rule sortBy_total) (simp add: byPriority_def)

lemma detectAvailableIDEs_fatal:
  "(\<exists>e. detectAvailableIDEs env ts = Inl e) \<longleftrightarrow> detectLoop env ts = []"
proof -
  obtain zs where zs: "sortBy byPriority (detectLoop env ts) = Inr zs"
    "set zs = set (detectLoop env ts)"
    using sortBy_byPriority by blast
  then have "zs = [] \<longleftrightarrow> detectLoop env ts = []" by auto
  then show ?thesis unfolding detectAvailableIDEs_def zs(1) by simp
qed

lemma detectAvailableIDEs_set:
  assumes "detectAvailableIDEs env ts = Inr ds"
  shows "set ds = set (detectLoop env ts)"
proof -
  obtain zs where zs: "sortBy byPriority (detectLoop env ts) = Inr zs"
    "set zs = set (detectLoop env ts)"
    using sortBy_byPriority by blast
  have "ds = zs" using assms unfolding detectAvailableIDEs_def zs(1)
    by (simp split: if_splits)
  then show ?thesis using zs(2) by simp
qed

section \<open>Properties of the version resolution\<close>










section \<open>Claim C1: the artifact after a failed verification\<close>


section \<open>Claim C2: the update decision\<close>

text \<open>
  C2. The specification asks that an update be needed exactly when the installed version
  is absent or the normalised latest version is greater than the normalised installed
  one, so that \<open>0.576.0-universal\<close> against \<open>0.576.0\<close> needs no update. The
  program compares the raw strings with \<open>semver.gt\<close>, for which the suffix is a
  prerelease tag below the release: at this input \<open>run\<close> and
  \<open>checkAllForUpdates\<close> report an update, and the specification's \<open>needsUpdate\<close>
  does not.
\<close>

theorem isOutdated_suffix_divergence:
  "isOutdated (Some ''0.576.0-universal'') ''0.576.0'' = Inr True \<and>
   cliNeedsUpdate (checkForUpdate ''0.576.0-universal'' (Inr ''0.576.0'')) = True \<and>
   needsUpdate (Some ''0.576.0-universal'') ''0.576.0'' = False \<and>
   normalizeVersion (Some ''0.576.0-universal'') = normalizeVersion (Some ''0.576.0'')"
  by code_simp

section \<open>Claim C3: a detection failure stays with its target\<close>

text \<open>
  C3, as amended. For every list of supported targets, what the detection loop collects is
  made of the contributions of the targets one by one: a target whose detection throws is
  caught and contributes nothing, and the targets before and after it are detected as if
  it were not in the list. \<open>detectAvailableIDEs\<close> of index.js then throws exactly when
  no target at all was detected, and otherwise returns the detected targets;
  \<open>detectAvailableIDEs\<close> of the managers directory never throws. The claim as stated,
  that detection never ends the run with a fatal error, fails for index.js on a machine
  where nothing is detected (\<open>detection_fatal_counterexample\<close>).
\<close>

theorem detection_failure_isolated:
  "(\<forall>env ts1 t ts2.
      detectLoop env (ts1 @ t # ts2) =
        detectLoop env ts1 @ contribution (detectTarget env t) @ detectLoop env ts2) \<and>
   (\<forall>env ts1 t ts2 e. detectTarget env t = Inl e \<longrightarrow>
      detectLoop env (ts1 @ t # ts2) = detectLoop env (ts1 @ ts2)) \<and>
   (\<forall>env ts. (\<exists>e. detectAvailableIDEs env ts = Inl e) \<longleftrightarrow> detectLoop env ts = []) \<and>
   (\<forall>env ts ds. detectAvailableIDEs env ts = Inr ds \<longrightarrow> set ds = set (detectLoop env ts)) \<and>
   (\<forall>env ts1 t ts2.
      detectLoopModule env (ts1 @ t # ts2) =
        detectLoopModule env ts1 @ contribution (detectTargetModule env t) @
        detectLoopModule env ts2) \<and>
   (\<forall>env ts. \<exists>ds. detectAvailableIDEsModule env ts = Inr ds \<and>
      set ds = set (detectLoopModule env ts))"
proof (intro conjI allI impI)
  fix env ts1 t ts2
  show "detectLoop env (ts1 @ t # ts2) =
        detectLoop env ts1 @ contribution (detectTarget env t) @ detectLoop env ts2"
    by (simp only: detectLoop_append detectLoop_Cons)
  show "detectLoopModule env (ts1 @ t # ts2) =
        detectLoopModule env ts1 @ contribution (detectTargetModule env t) @
        detectLoopModule env ts2"
    by (simp only: detectLoopModule_append detectLoopModule_Cons)
next
  fix env ts1 t ts2 e
  assume "detectTarget env t = Inl e"
  then have "contribution (detectTarget env t) = []" by (simp add: contribution_def)
  then show "detectLoop env (ts1 @ t # ts2) = detectLoop env (ts1 @ ts2)"
    by (simp only: detectLoop_append detectLoop_Cons append_Nil)
next
  fix env ts
  show "(\<exists>e. detectAvailableIDEs env ts = Inl e) \<longleftrightarrow> detectLoop env ts = []"
    by (rule detectAvailableIDEs_fatal)
  show "\<exists>ds. detectAvailableIDEsModule env ts = Inr ds \<and> set ds = set (detectLoopModule env ts)"
    unfolding detectAvailableIDEsModule_def by (rule sortBy_byPriority)
next
  fix env ts ds
  assume "detectAvailableIDEs env ts = Inr ds"
  then show "set ds = set (detectLoop env ts)" by (rule detectAvailableIDEs_set)
qed

theorem detection_failure_isolated_witness:
  "detectTarget codeOnlyEnv (hd supportedIDEs) =
     Inl ''The \"path\" argument must be of type string'' \<and>
   detectLoop codeOnlyEnv supportedIDEs = detectLoop codeOnlyEnv (tl supportedIDEs) \<and>
   map dIde (detectLoop codeOnlyEnv supportedIDEs) = [''vscode''] \<and>
   detectLoop bareEnv supportedIDEs = [] \<and>
   (\<exists>e. detectAvailableIDEs bareEnv supportedIDEs = Inl e)"
proof -
  have 1: "detectTarget codeOnlyEnv (hd supportedIDEs) =
     Inl ''The \"path\" argument must be of type string''" by code_simp
  have s: "supportedIDEs = [] @ hd supportedIDEs # tl supportedIDEs"
    by (simp add: supportedIDEs_def)
  note skip = detection_failure_isolated [THEN conjunct2, THEN conjunct1, rule_format]
  note fatal = detection_failure_isolated [THEN conjunct2, THEN conjunct2, THEN conjunct1,
      rule_format]
  have h: "detectLoop codeOnlyEnv ([] @ hd supportedIDEs # tl supportedIDEs) =
        detectLoop codeOnlyEnv ([] @ tl supportedIDEs)"
    by (rule skip [OF 1])
  have 2: "detectLoop codeOnlyEnv supportedIDEs = detectLoop codeOnlyEnv (tl supportedIDEs)"
    by (subst (1) s) (use h in \<open>simp only: append_Nil\<close>)
  have 3: "map dIde (detectLoop codeOnlyEnv supportedIDEs) = [''vscode'']" by code_simp
  have 4: "detectLoop bareEnv supportedIDEs = []" by code_simp
  have 5: "\<exists>e. detectAvailableIDEs bareEnv supportedIDEs = Inl e"
    using fatal [of bareEnv supportedIDEs] 4 by (simp only:)
  show ?thesis using 1 2 3 4 5 by (simp only: simp_thms)
qed

theorem detection_fatal_counterexample:
  "detectAvailableIDEs bareEnv supportedIDEs = Inl ''No supported IDE found (Cursor or VS Code)''"
  by code_simp

section \<open>Claim C5: the download is retried with a linear backoff\<close>

text \<open>
  C5. \<open>downloadVsix\<close> requests the artifact at most 3 times. The waits it adds are
  2000 ms times the number of the failed attempt, for each failed attempt but the last
  possible one. A run that is not a dry run returns a path only when its last request
  answered with a status 2xx and a payload that is not empty, and the file is then on
  disk. When the first two attempts fail, exactly 3 requests are made and the waits are
  those after attempts 1 and 2. When all three fail, \<open>downloadVsix\<close> throws, and the
  run ends with exit code 1 before any installation.
\<close>

theorem downloadVsix_retry:
  "(\<forall>env v st. fetches (snd (downloadVsix env v st)) \<le> fetches st + 3) \<and>
   (\<forall>env v st. delays (snd (downloadVsix env v st)) =
      delays st @ map (\<lambda>k. 2000 * k) [1..<fetches (snd (downloadVsix env v st)) - fetches st]) \<and>
   (\<forall>env v st p. \<not> isDryRun env \<and> fst (downloadVsix env v st) = Inr p \<longrightarrow>
      (\<exists>status buffer.
         fetched (download env (fetches (snd (downloadVsix env v st)) - fetches st)) =
           Response status (Inr buffer) \<and>
         responseOk status \<and> buffer \<noteq> [] \<and> p \<in> files (snd (downloadVsix env v st)))) \<and>
   (\<forall>env v st. \<not> isDryRun env \<and> \<not> accepted (download env 1) \<and>
        \<not> accepted (download env 2) \<longrightarrow>
      fetches (snd (downloadVsix env v st)) = fetches st + 3 \<and>
      delays (snd (downloadVsix env v st)) = delays st @ [2000 * 1, 2000 * 2]) \<and>
   (\<forall>env v st targets. \<not> isDryRun env \<and> \<not> accepted (download env 1) \<and>
        \<not> accepted (download env 2) \<and> \<not> accepted (download env 3) \<longrightarrow>
      (\<exists>e. fst (downloadVsix env v st) = Inl e) \<and>
      exitCode (performUpdate env targets v st) = 1 \<and>
      summary (performUpdate env targets v st) = [] \<and>
      vsixPath (performUpdate env targets v st) = None)"
proof (intro conjI allI impI)
  fix env v st
  show "fetches (snd (downloadVsix env v st)) \<le> fetches st + 3"
    by (rule downloadVsix_fetches)
  show "delays (snd (downloadVsix env v st)) =
      delays st @ map (\<lambda>k. 2000 * k) [1..<fetches (snd (downloadVsix env v st)) - fetches st]"
    by (rule downloadVsix_delays)
next
  fix env v st p
  assume "\<not> isDryRun env \<and> fst (downloadVsix env v st) = Inr p"
  then show "\<exists>status buffer.
         fetched (download env (fetches (snd (downloadVsix env v st)) - fetches st)) =
           Response status (Inr buffer) \<and>
         responseOk status \<and> buffer \<noteq> [] \<and> p \<in> files (snd (downloadVsix env v st))"
    using downloadVsix_success by blast
next
  fix env :: runEnv and v st
  assume a: "\<not> isDryRun env \<and> \<not> accepted (download env 1) \<and> \<not> accepted (download env 2)"
  then show "fetches (snd (downloadVsix env v st)) = fetches st + 3"
    "delays (snd (downloadVsix env v st)) = delays st @ [2000 * 1, 2000 * 2]"
    using downloadVsix_third [of env v st] by simp_all
next
  fix env :: runEnv and v st targets
  assume a: "\<not> isDryRun env \<and> \<not> accepted (download env 1) \<and>
        \<not> accepted (download env 2) \<and> \<not> accepted (download env 3)"
  then obtain e where e: "fst (downloadVsix env v st) = Inl e"
    using downloadVsix_exhausted [of env v st] by blast
  then show "\<exists>e. fst (downloadVsix env v st) = Inl e" by blast
  show "exitCode (performUpdate env targets v st) = 1"
    "summary (performUpdate env targets v st) = []"
    "vsixPath (performUpdate env targets v st) = None"
    using performUpdate_fatal [OF e] by simp_all
qed

theorem downloadVsix_retry_witness:
  "\<not> isDryRun flakyEnv \<and>
   fetched (download flakyEnv 1) = Response 500 (Inr []) \<and>
   fetched (download flakyEnv 2) = Response 500 (Inr []) \<and>
   fetched (download flakyEnv 3) = Response 200 (Inr ''PK'') \<and>
   fst (downloadVsix flakyEnv ''0.576.0'' startState) =
     Inr ''temp/augment.vscode-augment-0.576.0.vsix'' \<and>
   fetches (snd (downloadVsix flakyEnv ''0.576.0'' startState)) = 3 \<and>
   delays (snd (downloadVsix flakyEnv ''0.576.0'' startState)) = [2000, 4000] \<and>
   ''temp/augment.vscode-augment-0.576.0.vsix''
     \<in> files (snd (downloadVsix flakyEnv ''0.576.0'' startState)) \<and>
   \<not> isDryRun offlineEnv \<and>
   fetches (snd (downloadVsix offlineEnv ''0.576.0'' startState)) = 3 \<and>
   exitCode (performUpdate offlineEnv [cursorStatus None] ''0.576.0'' startState) = 1 \<and>
   exitCode (run offlineEnv startState) = 1"
proof -
  have d: "\<not> isDryRun flakyEnv" by (simp add: flakyEnv_def staleEnv_def)
  have f: "fetched (download flakyEnv 1) = Response 500 (Inr [])"
    "fetched (download flakyEnv 2) = Response 500 (Inr [])"
    "fetched (download flakyEnv 3) = Response 200 (Inr ''PK'')"
    by (simp_all add: flakyEnv_def staleEnv_def)
  have n: "\<not> accepted (download flakyEnv 1)" "\<not> accepted (download flakyEnv 2)"
    using f by (simp_all add: accepted_def responseOk_def)
  have r: "fst (downloadVsix flakyEnv ''0.576.0'' startState) =
     Inr ''temp/augment.vscode-augment-0.576.0.vsix''" by code_simp
  have s0: "fetches startState = 0" "delays startState = []" by (simp_all add: startState_def)
  note third = downloadVsix_retry [THEN conjunct2, THEN conjunct2, THEN conjunct2, THEN conjunct1,
      rule_format]
  note exhausted = downloadVsix_retry [THEN conjunct2, THEN conjunct2, THEN conjunct2,
      THEN conjunct2, rule_format]
  have t: "fetches (snd (downloadVsix flakyEnv ''0.576.0'' startState)) = 3 \<and>
      delays (snd (downloadVsix flakyEnv ''0.576.0'' startState)) = [2000, 4000]"
    using third [of flakyEnv "''0.576.0''" startState] d n s0 by simp
  have i: "''temp/augment.vscode-augment-0.576.0.vsix''
     \<in> files (snd (downloadVsix flakyEnv ''0.576.0'' startState))"
    using downloadVsix_retry d r by blast
  have od: "\<not> isDryRun offlineEnv" by (simp add: offlineEnv_def staleEnv_def)
  have on: "\<not> accepted (download offlineEnv 1)" "\<not> accepted (download offlineEnv 2)"
    "\<not> accepted (download offlineEnv 3)"
    by (simp_all add: offlineEnv_def staleEnv_def accepted_def)
  have o3: "fetches (snd (downloadVsix offlineEnv ''0.576.0'' startState)) = 3"
    using third [of offlineEnv "''0.576.0''" startState] od on s0 by simp
  have oe: "exitCode (performUpdate offlineEnv [cursorStatus None] ''0.576.0'' startState) = 1"
    using exhausted [of offlineEnv "''0.576.0''" startState "[cursorStatus None]"] od on by simp
  have orun: "exitCode (run offlineEnv startState) = 1" by code_simp
  show ?thesis using d f r t i od o3 oe orun by simp
qed

section \<open>Claim C6: the installed version is the greatest parseable one\<close>



section \<open>Claim C7: the fallback runs on every failure of the structured query\<close>



section \<open>Claim C9: normalisation is idempotent\<close>

text \<open>
  C9. \<open>normalizeVersion\<close> is idempotent: normalising a normalised version returns it
  unchanged, and normalising an absent or uncoercible version stays absent. For the
  suffix-qualified input \<open>0.560.0-universal\<close> it returns \<open>0.560.0\<close>: the suffix
  that is not numeric is dropped.
\<close>

theorem normalizeVersion_idempotent:
  "normalizeVersion (normalizeVersion x) = normalizeVersion x \<and>
   normalizeVersion (Some ''0.560.0-universal'') = Some ''0.560.0''"
proof
  show "normalizeVersion (normalizeVersion x) = normalizeVersion x"
  proof (cases "normalizeVersion x")
    case None
    then show ?thesis by (simp add: normalizeVersion_def)
  next
    case (Some n)
    then obtain v where "x = Some v" by (cases x) (auto simp: normalizeVersion_def)
    then show ?thesis using Some normalizeVersion_fixed by simp
  qed
  show "normalizeVersion (Some ''0.560.0-universal'') = Some ''0.560.0''"
    by code_simp
qed

theorem normalizeVersion_idempotent_witness:
  "normalizeVersion (Some ''v1.2.3-beta.1'') = Some ''1.2.3'' \<and>
   normalizeVersion (normalizeVersion (Some ''v1.2.3-beta.1'')) = Some ''1.2.3''"
proof -
  have 1: "normalizeVersion (Some ''v1.2.3-beta.1'') = Some ''1.2.3''" by code_simp
  show ?thesis using normalizeVersion_idempotent [of "Some ''v1.2.3-beta.1''"] 1 by simp
qed

section \<open>Claim C10: the fanout source directory is the greatest name, not the greatest version\<close>

text \<open>
  C10. The directory replicated during the profile fanout is the lexicographically
  greatest name among the entries of the default extensions folder that start with
  \<open>augment.vscode-augment-\<close> (a plain string sort, then the last element), and one
  is chosen whenever an entry matches. It is not the semantically greatest version: with
  the versions 9.0.0 and 10.0.0 both present the directory of 9.0.0 is chosen, although
  10.0.0 is the highest installed version.
\<close>

theorem latestExtensionDir_lexicographic:
  "(\<forall>entries d. latestExtensionDir entries = Some d \<longrightarrow>
      d \<in> set entries \<and> startsWith d ''augment.vscode-augment-'' \<and>
      (\<forall>e\<in>set entries. startsWith e ''augment.vscode-augment-'' \<longrightarrow> e \<le> d)) \<and>
   (\<forall>entries e. e \<in> set entries \<and> startsWith e ''augment.vscode-augment-'' \<longrightarrow>
      (\<exists>d. latestExtensionDir entries = Some d)) \<and>
   latestExtensionDir [''augment.vscode-augment-10.0.0'', ''augment.vscode-augment-9.0.0'']
     = Some ''augment.vscode-augment-9.0.0'' \<and>
   getExtensionVersionFromDir
     (Listing [''augment.vscode-augment-10.0.0'', ''augment.vscode-augment-9.0.0''])
     ''augment.vscode-augment'' = Some ''10.0.0'' \<and>
   gt ''10.0.0'' ''9.0.0'' = Inr True"
proof (intro conjI allI impI)
  fix entries d
  assume a: "latestExtensionDir entries = Some d"
  show "d \<in> set entries" "startsWith d ''augment.vscode-augment-''"
    "\<forall>e\<in>set entries. startsWith e ''augment.vscode-augment-'' \<longrightarrow> e \<le> d"
    using latestExtensionDir_greatest [OF a] by simp_all
next
  fix entries e
  assume "e \<in> set entries \<and> startsWith e ''augment.vscode-augment-''"
  then show "\<exists>d. latestExtensionDir entries = Some d"
    using latestExtensionDir_exists by blast
next
  show "latestExtensionDir [''augment.vscode-augment-10.0.0'', ''augment.vscode-augment-9.0.0'']
     = Some ''augment.vscode-augment-9.0.0''" by code_simp
  show "getExtensionVersionFromDir
     (Listing [''augment.vscode-augment-10.0.0'', ''augment.vscode-augment-9.0.0''])
     ''augment.vscode-augment'' = Some ''10.0.0''" by code_simp
  show "gt ''10.0.0'' ''9.0.0'' = Inr True" by code_simp
qed

theorem latestExtensionDir_lexicographic_witness:
  "latestExtensionDir [''readme'', ''augment.vscode-augment-0.9.0'', ''augment.vscode-augment-0.10.0'']
     = Some ''augment.vscode-augment-0.9.0'' \<and>
   ''augment.vscode-augment-0.9.0'' \<in>
     set [''readme'', ''augment.vscode-augment-0.9.0'', ''augment.vscode-augment-0.10.0''] \<and>
   ''augment.vscode-augment-0.10.0'' \<le> ''augment.vscode-augment-0.9.0''"
proof -
  have 1: "latestExtensionDir
      [''readme'', ''augment.vscode-augment-0.9.0'', ''augment.vscode-augment-0.10.0'']
     = Some ''augment.vscode-augment-0.9.0''" by code_simp
  have 2: "startsWith ''augment.vscode-augment-0.10.0'' ''augment.vscode-augment-''"
    by code_simp
  have 3: "''augment.vscode-augment-0.10.0'' \<in>
     set [''readme'', ''augment.vscode-augment-0.9.0'', ''augment.vscode-augment-0.10.0'']"
    by simp
  from latestExtensionDir_lexicographic 1 2 3 show ?thesis by blast
qed

end
